theory Spec2Isabelle
  imports Main "HOL-Library.Multiset" "HOL-Library.Sublist" "HOL-Library.While_Combinator"
begin

section \<open>The op sharding rule builder\<close>

text \<open>
  The builder of \<open>op_sharding_rule_builder.h\<close> and
  \<open>op_sharding_rule_builder.cc\<close>. An \<open>int64_t\<close> is an
  \<open>int\<close>: the builder stores factor sizes and compares them with 1, and a factor
  index is the length of a vector, so no arithmetic can overflow. A
  \<open>DimMapping\<close> is the list of its \<open>factorIndices\<close>, a
  \<open>TensorMapping\<close> the list of the mappings of its dimensions.
\<close>

type_synonym DimMapping = "int list"
type_synonym TensorMapping = "DimMapping list"

definition kNullDim :: int where
  "kNullDim = - 1"

datatype FactorType = kPassThrough | kReduction | kNeedReplication | kPermutation

record OpShardingRuleBuilder =
  factorSizes :: "int list"
  operandMappings :: "TensorMapping list"
  resultMappings :: "TensorMapping list"
  reductionFactors :: "int list"
  needReplicationFactors :: "int list"
  permutationFactors :: "int list"
  blockedPropagationFactors :: "int list"

text \<open>
  The assertions of the code are results of their own: \<open>zip_equal\<close> asserts that
  its ranges have one length, \<open>mapDimsToFactor\<close> asserts \<open>tensorDim >=
  0\<close>, and indexing a \<open>SmallVector\<close> asserts that the index is in range.
\<close>

datatype builder_error = SizeMismatch | NegativeDim | DimOutOfRange

text \<open>The constructor: one empty mapping per dimension of every operand and result.\<close>

definition newBuilder :: "nat list \<Rightarrow> nat list \<Rightarrow> OpShardingRuleBuilder" where
  "newBuilder operandRanks resultRanks =
     \<lparr>factorSizes = [],
      operandMappings = map (\<lambda>rank. replicate rank []) operandRanks,
      resultMappings = map (\<lambda>rank. replicate rank []) resultRanks,
      reductionFactors = [], needReplicationFactors = [], permutationFactors = [],
      blockedPropagationFactors = []\<rparr>"

definition reserveFactor ::
  "OpShardingRuleBuilder \<Rightarrow> int \<Rightarrow> FactorType \<Rightarrow> bool \<Rightarrow> int \<times> OpShardingRuleBuilder" where
  "reserveFactor b factorSize factorType isBlocked =
     (let factorIndex = int (length (factorSizes b));
          b1 = b\<lparr>factorSizes := factorSizes b @ [factorSize]\<rparr>;
          b2 = (if isBlocked
                then b1\<lparr>blockedPropagationFactors := blockedPropagationFactors b1 @ [factorIndex]\<rparr>
                else b1)
      in case factorType of
           kReduction \<Rightarrow> (factorIndex, b2\<lparr>reductionFactors := reductionFactors b2 @ [factorIndex]\<rparr>)
         | kNeedReplication \<Rightarrow>
             (factorIndex, b2\<lparr>needReplicationFactors := needReplicationFactors b2 @ [factorIndex]\<rparr>)
         | kPermutation \<Rightarrow>
             (factorIndex, b2\<lparr>permutationFactors := permutationFactors b2 @ [factorIndex]\<rparr>)
         | kPassThrough \<Rightarrow> (factorIndex, b2))"

text \<open>
  The loop of \<open>mapDimsToFactor\<close> over the zipped ranges. A
  \<open>kNullDim\<close> is skipped, and so is a dimension that already has a factor when
  the new factor has size 1.
\<close>

fun mapDimsLoop ::
  "TensorMapping list \<Rightarrow> int list \<Rightarrow> int \<Rightarrow> int \<Rightarrow> builder_error + TensorMapping list" where
  "mapDimsLoop (tensorMapping # tms) (tensorDim # dims) factorIndex factorSize =
     (if tensorDim = kNullDim then
        (case mapDimsLoop tms dims factorIndex factorSize of
           Inl e \<Rightarrow> Inl e | Inr rest \<Rightarrow> Inr (tensorMapping # rest))
      else if tensorDim < 0 then Inl NegativeDim
      else if length tensorMapping \<le> nat tensorDim then Inl DimOutOfRange
      else
        (let mappedFactors = tensorMapping ! nat tensorDim;
             tensorMapping' =
               (if factorSize = 1 \<and> mappedFactors \<noteq> [] then tensorMapping
                else tensorMapping[nat tensorDim := mappedFactors @ [factorIndex]])
         in case mapDimsLoop tms dims factorIndex factorSize of
              Inl e \<Rightarrow> Inl e | Inr rest \<Rightarrow> Inr (tensorMapping' # rest)))"
| "mapDimsLoop [] [] factorIndex factorSize = Inr []"
| "mapDimsLoop _ _ factorIndex factorSize = Inl SizeMismatch"

definition mapDimsToFactor ::
  "TensorMapping list \<Rightarrow> int list \<Rightarrow> int \<Rightarrow> int \<Rightarrow> builder_error + TensorMapping list" where
  "mapDimsToFactor tensorMappings tensorDims factorIndex factorSize =
     (if length tensorMappings \<noteq> length tensorDims then Inl SizeMismatch
      else mapDimsLoop tensorMappings tensorDims factorIndex factorSize)"

definition addFactor ::
  "OpShardingRuleBuilder \<Rightarrow> int list \<Rightarrow> int list \<Rightarrow> int \<Rightarrow> FactorType \<Rightarrow> bool
     \<Rightarrow> builder_error + OpShardingRuleBuilder" where
  "addFactor b operandDims resultDims factorSize factorType isBlocked =
     (case reserveFactor b factorSize factorType isBlocked of (factorIndex, b1) \<Rightarrow>
        (case mapDimsToFactor (operandMappings b1) operandDims factorIndex factorSize of
           Inl e \<Rightarrow> Inl e
         | Inr oms \<Rightarrow>
            (case mapDimsToFactor (resultMappings b1) resultDims factorIndex factorSize of
               Inl e \<Rightarrow> Inl e
             | Inr rms \<Rightarrow> Inr (b1\<lparr>operandMappings := oms, resultMappings := rms\<rparr>))))"

text \<open>
  The rule that \<open>build\<close> returns: the arguments of
  \<open>OpShardingRuleAttr::get\<close>, in the order in which \<open>build\<close> passes
  them.
\<close>

record OpShardingRuleAttr =
  factor_sizes :: "int list"
  operand_mappings :: "TensorMapping list"
  result_mappings :: "TensorMapping list"
  reduction_factors :: "int list"
  need_replication_factors :: "int list"
  permutation_factors :: "int list"
  blocked_propagation_factors :: "int list"

text \<open>
  The inner loop of \<open>buildTensorMappingAttrList\<close>, over the dimensions of one
  tensor: a dimension without a factor gets the next free index, and a size 1 is pushed on
  \<open>factorSizes\<close>, which is passed by reference and so is threaded through.
\<close>

fun buildDimMappings :: "TensorMapping \<Rightarrow> int list \<Rightarrow> TensorMapping \<times> int list" where
  "buildDimMappings [] fs = ([], fs)"
| "buildDimMappings (dimMapping # rest) fs =
     (if dimMapping = [] then
        (case buildDimMappings rest (fs @ [1]) of
           (dimMappings, fs') \<Rightarrow> ([int (length fs)] # dimMappings, fs'))
      else
        (case buildDimMappings rest fs of
           (dimMappings, fs') \<Rightarrow> (dimMapping # dimMappings, fs')))"

fun buildTensorMappingAttrList ::
  "TensorMapping list \<Rightarrow> int list \<Rightarrow> TensorMapping list \<times> int list" where
  "buildTensorMappingAttrList [] fs = ([], fs)"
| "buildTensorMappingAttrList (tensorMapping # rest) fs =
     (case buildDimMappings tensorMapping fs of
        (dimMappings, fs1) \<Rightarrow>
          (case buildTensorMappingAttrList rest fs1 of
             (tensorMappingAttrs, fs2) \<Rightarrow> (dimMappings # tensorMappingAttrs, fs2)))"

text \<open>\<open>SmallVector::resize\<close>: truncates, or fills with zeros.\<close>

definition resize :: "int list \<Rightarrow> nat \<Rightarrow> int list" where
  "resize xs n = (if n \<le> length xs then take n xs else xs @ replicate (n - length xs) 0)"

definition build :: "OpShardingRuleBuilder \<Rightarrow> OpShardingRuleAttr \<times> OpShardingRuleBuilder" where
  "build b =
     (let originalNumFactors = length (factorSizes b) in
      case buildTensorMappingAttrList (operandMappings b) (factorSizes b) of
        (operandMappingAttrs, fs1) \<Rightarrow>
          (case buildTensorMappingAttrList (resultMappings b) fs1 of
             (resultMappingAttrs, fs2) \<Rightarrow>
               (\<lparr>factor_sizes = fs2,
                 operand_mappings = operandMappingAttrs,
                 result_mappings = resultMappingAttrs,
                 reduction_factors = reductionFactors b,
                 need_replication_factors = needReplicationFactors b,
                 permutation_factors = permutationFactors b,
                 blocked_propagation_factors = blockedPropagationFactors b\<rparr>,
                b\<lparr>factorSizes := resize fs2 originalNumFactors\<rparr>)))"


section \<open>Meshes, axes and shardings\<close>

text \<open>
  The attributes as \<open>bytecode.td\<close> lists their fields. A
  \<open>SignedVarInt\<close> is an \<open>int\<close>, the optional priority
  (\<open>std::optional<uint64_t>\<close>) a \<open>nat option\<close>. The
  \<open>mesh_or_ref\<close> of a tensor sharding is a generic \<open>Attribute\<close>: the
  name of a mesh, or a mesh written in place (axes and device ids).
\<close>

datatype SubAxisInfoAttr = SubAxisInfo (pre_size: int) (sub_size: int)

datatype AxisRefAttr = AxisRef (name: string) (sub_axis_info: "SubAxisInfoAttr option")

record DimensionShardingAttr =
  axes :: "AxisRefAttr list"
  is_closed :: bool
  priority :: "nat option"

datatype MeshOrRef = MeshRef string | InlinedMesh "(string \<times> int) list" "int list"

record TensorShardingAttr =
  mesh_or_ref :: MeshOrRef
  dim_shardings :: "DimensionShardingAttr list"
  replicated_axes :: "AxisRefAttr list"
  unreduced_axes :: "AxisRefAttr list"

datatype AllToAllParamAttr =
  AllToAllParam (param_axes: "AxisRefAttr list") (src_dim: int) (tgt_dim: int)

section \<open>The bytecode records\<close>

text \<open>
  \<open>SdyDialectTypes\<close> of \<open>bytecode.td\<close>: the position of a definition
  in \<open>elems\<close> is the tag of its records. Several definitions may have one
  \<open>cType\<close>; the writer of that type takes the first of them, in the order of
  \<open>elems\<close>, whose \<open>printerPredicate\<close> holds, and fails when there is
  none.
\<close>

datatype BcDef =
    Sdy_ManualAxesAttrBc | Sdy_MeshAxisAttrBc | Sdy_MeshAttrBc | Sdy_SubAxisInfoAttrBc
  | Sdy_AxisRefAttrBc | Sdy_DimensionShardingAttrBc | Sdy_TensorShardingAttrV1Bc
  | Sdy_TensorShardingPerValueAttrV1Bc | Sdy_DimMappingAttrBc | Sdy_TensorMappingAttrBc
  | Sdy_OpShardingRuleAttrBc | Sdy_AxisRefListAttrBc | Sdy_ListOfAxisRefListsAttrBc
  | Sdy_AllToAllParamAttrBc | Sdy_AllToAllParamListAttrBc | Sdy_TensorShardingAttrV2Bc
  | Sdy_TensorShardingPerValueAttrV2Bc

definition SdyDialectTypes :: "BcDef list" where
  "SdyDialectTypes =
     [Sdy_ManualAxesAttrBc, Sdy_MeshAxisAttrBc, Sdy_MeshAttrBc, Sdy_SubAxisInfoAttrBc,
      Sdy_AxisRefAttrBc, Sdy_DimensionShardingAttrBc, Sdy_TensorShardingAttrV1Bc,
      Sdy_TensorShardingPerValueAttrV1Bc, Sdy_DimMappingAttrBc, Sdy_TensorMappingAttrBc,
      Sdy_OpShardingRuleAttrBc, Sdy_AxisRefListAttrBc, Sdy_ListOfAxisRefListsAttrBc,
      Sdy_AllToAllParamAttrBc, Sdy_AllToAllParamListAttrBc, Sdy_TensorShardingAttrV2Bc,
      Sdy_TensorShardingPerValueAttrV2Bc]"

fun cType :: "BcDef \<Rightarrow> string" where
  "cType Sdy_ManualAxesAttrBc = ''ManualAxesAttr''"
| "cType Sdy_MeshAxisAttrBc = ''MeshAxisAttr''"
| "cType Sdy_MeshAttrBc = ''MeshAttr''"
| "cType Sdy_SubAxisInfoAttrBc = ''SubAxisInfoAttr''"
| "cType Sdy_AxisRefAttrBc = ''AxisRefAttr''"
| "cType Sdy_DimensionShardingAttrBc = ''DimensionShardingAttr''"
| "cType Sdy_TensorShardingAttrV1Bc = ''TensorShardingAttr''"
| "cType Sdy_TensorShardingPerValueAttrV1Bc = ''TensorShardingPerValueAttr''"
| "cType Sdy_DimMappingAttrBc = ''DimMappingAttr''"
| "cType Sdy_TensorMappingAttrBc = ''TensorMappingAttr''"
| "cType Sdy_OpShardingRuleAttrBc = ''OpShardingRuleAttr''"
| "cType Sdy_AxisRefListAttrBc = ''AxisRefListAttr''"
| "cType Sdy_ListOfAxisRefListsAttrBc = ''ListOfAxisRefListsAttr''"
| "cType Sdy_AllToAllParamAttrBc = ''AllToAllParamAttr''"
| "cType Sdy_AllToAllParamListAttrBc = ''AllToAllParamListAttr''"
| "cType Sdy_TensorShardingAttrV2Bc = ''TensorShardingAttr''"
| "cType Sdy_TensorShardingPerValueAttrV2Bc = ''TensorShardingPerValueAttr''"

text \<open>
  The predicates of the two definitions of \<open>TensorShardingAttr\<close>:
  \<open>$_val.getUnreducedAxes().empty()\<close> and its negation. A definition without a
  predicate is always chosen.
\<close>

fun printerPredicate :: "BcDef \<Rightarrow> TensorShardingAttr \<Rightarrow> bool" where
  "printerPredicate Sdy_TensorShardingAttrV1Bc v = (unreduced_axes v = [])"
| "printerPredicate Sdy_TensorShardingAttrV2Bc v = (\<not> (unreduced_axes v = []))"
| "printerPredicate _ v = True"

datatype BcField =
    FAttribute MeshOrRef
  | FDimShardings "DimensionShardingAttr list"
  | FAxisRefs "AxisRefAttr list"

text \<open>The fields that a definition writes, in the order of its \<open>attr\<close> list.\<close>

fun writeFields :: "BcDef \<Rightarrow> TensorShardingAttr \<Rightarrow> BcField list" where
  "writeFields Sdy_TensorShardingAttrV1Bc v =
     [FAttribute (mesh_or_ref v), FDimShardings (dim_shardings v), FAxisRefs (replicated_axes v)]"
| "writeFields Sdy_TensorShardingAttrV2Bc v =
     [FAttribute (mesh_or_ref v), FDimShardings (dim_shardings v), FAxisRefs (replicated_axes v),
      FAxisRefs (unreduced_axes v)]"
| "writeFields _ v = []"

definition writeTensorShardingAttr :: "TensorShardingAttr \<Rightarrow> (nat \<times> BcField list) option" where
  "writeTensorShardingAttr v =
     (case filter (\<lambda>i. cType (SdyDialectTypes ! i) = ''TensorShardingAttr''
                        \<and> printerPredicate (SdyDialectTypes ! i) v)
                  [0..<length SdyDialectTypes] of
        [] \<Rightarrow> None
      | i # _ \<Rightarrow> Some (i, writeFields (SdyDialectTypes ! i) v))"

text \<open>
  The reader dispatches on the tag. The \<open>cBuilder\<close> of V1 passes the empty list
  for \<open>unreduced_axes\<close>; V2 has the default builder, which passes the four
  fields read.
\<close>

fun readFields :: "BcDef \<Rightarrow> BcField list \<Rightarrow> TensorShardingAttr option" where
  "readFields Sdy_TensorShardingAttrV1Bc [FAttribute m, FDimShardings ds, FAxisRefs rs] =
     Some \<lparr>mesh_or_ref = m, dim_shardings = ds, replicated_axes = rs, unreduced_axes = []\<rparr>"
| "readFields Sdy_TensorShardingAttrV2Bc [FAttribute m, FDimShardings ds, FAxisRefs rs, FAxisRefs us] =
     Some \<lparr>mesh_or_ref = m, dim_shardings = ds, replicated_axes = rs, unreduced_axes = us\<rparr>"
| "readFields _ _ = None"

definition readTensorShardingAttr :: "nat \<times> BcField list \<Rightarrow> TensorShardingAttr option" where
  "readTensorShardingAttr r =
     (if fst r < length SdyDialectTypes then readFields (SdyDialectTypes ! fst r) (snd r)
      else None)"

section \<open>The canonicalization patterns\<close>

text \<open>
  The patterns of \<open>canonicalization.td\<close>, each a partial function on values: the
  value that replaces the matched one, or \<open>None\<close> when the pattern does not
  match. A value is a block argument or the result of a collective; the number of uses of a
  value belongs to the surrounding function and is a parameter, \<open>uses\<close>.
\<close>

datatype Val =
    BlockArg nat
  | ReshardOp Val TensorShardingAttr
  | AllGatherOp Val "AxisRefAttr list list" TensorShardingAttr
  | AllSliceOp Val "AxisRefAttr list list" TensorShardingAttr
  | AllReduceOp Val "AxisRefAttr list" TensorShardingAttr
  | CollectivePermuteOp Val TensorShardingAttr
  | AllToAllOp Val "AllToAllParamAttr list" TensorShardingAttr

definition HasOneUse :: "(Val \<Rightarrow> nat) \<Rightarrow> Val \<Rightarrow> bool" where
  "HasOneUse uses v = (uses v = 1)"

definition HasNoUseOf :: "(Val \<Rightarrow> nat) \<Rightarrow> Val \<Rightarrow> bool" where
  "HasNoUseOf uses v = (uses v = 0)"

text \<open>
  The constraints \<open>Sdy_EmptyAxesPerDim\<close> and \<open>Sdy_EmptyAxisList\<close>
  are declared with the attributes, in a file that is not among the sources embedded here;
  they are read as their names say: every list of the list is empty, and the list is empty.
\<close>

definition Sdy_EmptyAxesPerDim :: "AxisRefAttr list list \<Rightarrow> bool" where
  "Sdy_EmptyAxesPerDim axesPerDim = list_all (\<lambda>l. l = []) axesPerDim"

definition Sdy_EmptyAxisList :: "AxisRefAttr list \<Rightarrow> bool" where
  "Sdy_EmptyAxisList l = (l = [])"

fun ReshardOfReshardPattern :: "(Val \<Rightarrow> nat) \<Rightarrow> Val \<Rightarrow> Val option" where
  "ReshardOfReshardPattern uses (ReshardOp (ReshardOp tensor inner_sharding) outer_sharding) =
     (if HasOneUse uses (ReshardOp tensor inner_sharding)
      then Some (ReshardOp tensor outer_sharding) else None)"
| "ReshardOfReshardPattern uses _ = None"

fun AllGatherNoopPattern :: "Val \<Rightarrow> Val option" where
  "AllGatherNoopPattern (AllGatherOp tensor gatheringAxes outSharding) =
     (if Sdy_EmptyAxesPerDim gatheringAxes then Some tensor else None)"
| "AllGatherNoopPattern _ = None"

fun AllSliceNoopPattern :: "Val \<Rightarrow> Val option" where
  "AllSliceNoopPattern (AllSliceOp tensor slicingAxes outSharding) =
     (if Sdy_EmptyAxesPerDim slicingAxes then Some tensor else None)"
| "AllSliceNoopPattern _ = None"

fun AllReduceNoopPattern :: "Val \<Rightarrow> Val option" where
  "AllReduceNoopPattern (AllReduceOp tensor reductionAxes resultSharding) =
     (if Sdy_EmptyAxisList reductionAxes then Some tensor else None)"
| "AllReduceNoopPattern _ = None"

text \<open>
  \<open>TensorShardingEquivalent\<close> compares the sharding of the operand with the out
  sharding through \<open>getSharding\<close> and \<open>areDimAxesEqual\<close>, which are
  not among the sources embedded here: the constraint is a parameter.
\<close>

fun CollectivePermuteNoopPattern ::
  "(Val \<Rightarrow> TensorShardingAttr \<Rightarrow> bool) \<Rightarrow> Val \<Rightarrow> Val option" where
  "CollectivePermuteNoopPattern TensorShardingEquivalent (CollectivePermuteOp tensor out_sharding) =
     (if TensorShardingEquivalent tensor out_sharding then Some tensor else None)"
| "CollectivePermuteNoopPattern TensorShardingEquivalent _ = None"

text \<open>\<open>AllMatchPred\<close> on the two axes attributes: they are equal.\<close>

fun AllSliceOfAllGatherPattern :: "Val \<Rightarrow> Val option" where
  "AllSliceOfAllGatherPattern (AllSliceOp (AllGatherOp tensor gatheringAxes s1) slicingAxes s2) =
     (if gatheringAxes = slicingAxes then Some tensor else None)"
| "AllSliceOfAllGatherPattern _ = None"

fun AllToAllNoUsePattern :: "(Val \<Rightarrow> nat) \<Rightarrow> Val \<Rightarrow> Val option" where
  "AllToAllNoUsePattern uses (AllToAllOp tensor params sharding) =
     (if HasNoUseOf uses (AllToAllOp tensor params sharding) then Some tensor else None)"
| "AllToAllNoUsePattern uses _ = None"

text \<open>
  \<open>AllToAllFusionPattern\<close> calls two methods of the parameter list attribute,
  \<open>overlaps\<close> and \<open>combineAndSort\<close>, which are not among the sources
  embedded here: both are parameters of the pattern.
\<close>

fun AllToAllFusionPattern ::
  "(Val \<Rightarrow> nat) \<Rightarrow> (AllToAllParamAttr list \<Rightarrow> AllToAllParamAttr list \<Rightarrow> bool)
     \<Rightarrow> (AllToAllParamAttr list \<Rightarrow> AllToAllParamAttr list \<Rightarrow> AllToAllParamAttr list)
     \<Rightarrow> Val \<Rightarrow> Val option" where
  "AllToAllFusionPattern uses overlaps combineAndSort
     (AllToAllOp (AllToAllOp inner_tensor inner_params inner_sharding) outer_params outer_sharding) =
     (if HasOneUse uses (AllToAllOp inner_tensor inner_params inner_sharding)
         \<and> \<not> overlaps inner_params outer_params
      then Some (AllToAllOp inner_tensor (combineAndSort inner_params outer_params) outer_sharding)
      else None)"
| "AllToAllFusionPattern uses overlaps combineAndSort _ = None"

text \<open>
  Modelled from the spec: \<open>combineAndSort\<close>, the method of the parameter list
  that the fusion pattern calls, is missing. The spec has the fused list made "by combining
  and sorting their axis-parameter lists"; it does not name the key of the sort, which is a
  parameter here.
\<close>

definition combineAndSort ::
  "(AllToAllParamAttr \<Rightarrow> 'k::linorder) \<Rightarrow> AllToAllParamAttr list \<Rightarrow> AllToAllParamAttr list
     \<Rightarrow> AllToAllParamAttr list" where
  "combineAndSort key params other = sort_key key (params @ other)"


section \<open>Propagation directions\<close>

text \<open>\<open>Sdy_PropagationDirection\<close> of \<open>enums.td\<close>, with the value of each case.\<close>

datatype PropagationDirection = NONE | FORWARD | BACKWARD | BOTH

fun directionValue :: "PropagationDirection \<Rightarrow> nat" where
  "directionValue NONE = 0"
| "directionValue FORWARD = 1"
| "directionValue BACKWARD = 2"
| "directionValue BOTH = 3"

text \<open>
  Modelled from the spec: the function that combines the directions of the heuristics of an
  operation is missing (of op-priority propagation there is only the description of the pass
  in \<open>passes.td\<close>). The spec: "directions combine with precedence \<open>BOTH >
  {FORWARD, BACKWARD} > NONE\<close>, and seeing both \<open>FORWARD\<close> and
  \<open>BACKWARD\<close> across different heuristics promotes to \<open>BOTH\<close>"; the
  direction of an operation at priority \<open>p\<close> is evaluated "over priorities
  \<open>0..p\<close>". The schedule is the list of the heuristics, one per priority.
\<close>

fun precedence :: "PropagationDirection \<Rightarrow> nat" where
  "precedence NONE = 0"
| "precedence FORWARD = 1"
| "precedence BACKWARD = 1"
| "precedence BOTH = 2"

definition combineDirections ::
  "PropagationDirection \<Rightarrow> PropagationDirection \<Rightarrow> PropagationDirection" where
  "combineDirections seen d =
     (if (seen = FORWARD \<and> d = BACKWARD) \<or> (seen = BACKWARD \<and> d = FORWARD) then BOTH
      else if precedence seen < precedence d then d
      else seen)"

definition directionAtPriority ::
  "('op \<Rightarrow> PropagationDirection) list \<Rightarrow> nat \<Rightarrow> 'op \<Rightarrow> PropagationDirection" where
  "directionAtPriority schedule p op =
     foldl combineDirections NONE (map (\<lambda>heuristic. heuristic op) (take (Suc p) schedule))"

text \<open>The order \<open>NONE < {FORWARD, BACKWARD} < BOTH\<close> on the directions.\<close>

definition directionLe :: "PropagationDirection \<Rightarrow> PropagationDirection \<Rightarrow> bool" where
  "directionLe a b = (a = NONE \<or> b = BOTH \<or> a = b)"

section \<open>Resharding synthesis\<close>

text \<open>
  A mesh is the list of its axes, each with its size, as the test file declares them.
\<close>

type_synonym Mesh = "(string \<times> int) list"

text \<open>
  Modelled from the spec: the synthesis of collectives for a reshard (the pass
  \<open>sdy-reshard-to-collectives\<close>) is missing; there is its test file,
  \<open>reshard_to_collectives.mlir\<close>. The definitions below follow sections 4.1 and
  4.5 of the spec.

  Canonical merging (4.1): "combining two adjacent windows of the same axis that together
  cover a larger contiguous region must yield a single merged AxisRef". Two sub-axes of one
  axis are adjacent when the second starts where the first ends; a window that covers the
  whole axis is the axis itself ("full axis when window absent").
\<close>

fun canMerge :: "AxisRefAttr \<Rightarrow> AxisRefAttr \<Rightarrow> bool" where
  "canMerge (AxisRef n (Some (SubAxisInfo p k))) (AxisRef n' (Some (SubAxisInfo p' k'))) =
     (n = n' \<and> p' = p * k)"
| "canMerge _ _ = False"

fun mergeTwo :: "Mesh \<Rightarrow> AxisRefAttr \<Rightarrow> AxisRefAttr \<Rightarrow> AxisRefAttr" where
  "mergeTwo mesh (AxisRef n (Some (SubAxisInfo p k))) (AxisRef n' (Some (SubAxisInfo p' k'))) =
     (if p = 1 \<and> map_of mesh n = Some (k * k') then AxisRef n None
      else AxisRef n (Some (SubAxisInfo p (k * k'))))"
| "mergeTwo mesh a _ = a"

fun mergeSubAxes :: "Mesh \<Rightarrow> AxisRefAttr list \<Rightarrow> AxisRefAttr list" where
  "mergeSubAxes mesh (a # b # rest) =
     (if canMerge a b then mergeSubAxes mesh (mergeTwo mesh a b # rest)
      else a # mergeSubAxes mesh (b # rest))"
| "mergeSubAxes mesh l = l"

definition canonicalDims :: "Mesh \<Rightarrow> TensorShardingAttr \<Rightarrow> AxisRefAttr list list" where
  "canonicalDims mesh s = map (\<lambda>d. mergeSubAxes mesh (axes d)) (dim_shardings s)"

text \<open>
  Modelled from the spec (the synthesis is missing): the roles of step 1 of 4.5, on the
  canonical axis lists of the dimensions of source and target: \<^emph>\<open>slice\<close>
  (present only in target), \<^emph>\<open>gather\<close> (present only in source),
  \<^emph>\<open>move\<close> (present in both, but on different tensor dimensions),
  \<^emph>\<open>reorder\<close> (same dimension, different order relative to other axes on
  that dimension: the axis has another position among the axes of the dimension); every
  other axis \<^emph>\<open>stays\<close>. A move whose axes come in another order in the
  target dimension cannot be one all-to-all (the "ordering mismatch" of step 2).
\<close>

definition sliceAxes :: "AxisRefAttr list list \<Rightarrow> AxisRefAttr list list \<Rightarrow> AxisRefAttr list list" where
  "sliceAxes src tgt = map (filter (\<lambda>a. a \<notin> set (concat src))) tgt"

definition gatherAxes :: "AxisRefAttr list list \<Rightarrow> AxisRefAttr list list \<Rightarrow> AxisRefAttr list list" where
  "gatherAxes src tgt = map (filter (\<lambda>a. a \<notin> set (concat tgt))) src"

definition moveAxes ::
  "AxisRefAttr list list \<Rightarrow> AxisRefAttr list list \<Rightarrow> nat \<Rightarrow> nat \<Rightarrow> AxisRefAttr list" where
  "moveAxes src tgt d d' =
     (if d = d' then [] else filter (\<lambda>a. a \<notin> set (tgt ! d) \<and> a \<in> set (tgt ! d')) (src ! d))"

definition position :: "AxisRefAttr \<Rightarrow> AxisRefAttr list \<Rightarrow> nat" where
  "position a l = length (takeWhile (\<lambda>b. b \<noteq> a) l)"

definition reorderAxes ::
  "AxisRefAttr list list \<Rightarrow> AxisRefAttr list list \<Rightarrow> nat \<Rightarrow> AxisRefAttr list" where
  "reorderAxes src tgt d =
     filter (\<lambda>a. a \<in> set (tgt ! d) \<and> position a (src ! d) \<noteq> position a (tgt ! d)) (src ! d)"

definition mismatchedMoves ::
  "AxisRefAttr list list \<Rightarrow> AxisRefAttr list list \<Rightarrow> nat \<Rightarrow> nat \<Rightarrow> AxisRefAttr list" where
  "mismatchedMoves src tgt d d' =
     (let m = moveAxes src tgt d d'
      in if m = filter (\<lambda>a. a \<in> set m) (tgt ! d') then [] else m)"

text \<open>
  Modelled from the spec (the synthesis is missing): the collectives of 4.5, each with its
  axis parameters: the axes per dimension of an all-slice or all-gather, the axes that a
  collective-permute realigns, the axes that an all-to-all moves with its source and target
  dimension.
\<close>

datatype Collective =
    all_slice "AxisRefAttr list list"
  | collective_permute "AxisRefAttr list"
  | all_to_all "AxisRefAttr list" nat nat
  | all_gather "AxisRefAttr list list"

fun axisParameters :: "Collective \<Rightarrow> AxisRefAttr list" where
  "axisParameters (all_slice axesPerDim) = concat axesPerDim"
| "axisParameters (collective_permute as) = as"
| "axisParameters (all_to_all as d d') = as"
| "axisParameters (all_gather axesPerDim) = concat axesPerDim"

text \<open>
  Modelled from the spec (the synthesis is missing): the elision of 4.5; a collective whose
  axis-parameter list is empty is dropped.
\<close>

definition elide :: "Collective list \<Rightarrow> Collective list" where
  "elide cs = filter (\<lambda>c. axisParameters c \<noteq> []) cs"

text \<open>
  Modelled from the spec (the synthesis is missing): steps 2 to 5 of 4.5, one
  collective-permute for the axes to reorder and the mismatched moves, one all-to-all per
  pair of source and target dimension, a single all-slice, a single all-gather. The spec
  lists the permute first; the sequences that the test file expects have the all-slice
  before the permute, then the all-to-alls, then the all-gather, and that is the order here.
  Source and target are for one tensor: with different ranks there is no result.
\<close>

definition dimPairs :: "AxisRefAttr list list \<Rightarrow> (nat \<times> nat) list" where
  "dimPairs src = List.product [0..<length src] [0..<length src]"

definition permuteAxes :: "AxisRefAttr list list \<Rightarrow> AxisRefAttr list list \<Rightarrow> AxisRefAttr list" where
  "permuteAxes src tgt =
     concat (map (reorderAxes src tgt) [0..<length src])
     @ concat (map (\<lambda>(d, d'). mismatchedMoves src tgt d d') (dimPairs src))"

definition reshard ::
  "Mesh \<Rightarrow> TensorShardingAttr \<Rightarrow> TensorShardingAttr \<Rightarrow> Collective list option" where
  "reshard mesh source_sharding target_sharding =
     (let src = canonicalDims mesh source_sharding;
          tgt = canonicalDims mesh target_sharding
      in if length src \<noteq> length tgt then None
         else Some (elide
           ([all_slice (sliceAxes src tgt)]
            @ [collective_permute (permuteAxes src tgt)]
            @ map (\<lambda>(d, d'). all_to_all (moveAxes src tgt d d') d d') (dimPairs src)
            @ [all_gather (gatherAxes src tgt)])))"

subsection \<open>The expected sequences of the test file\<close>

text \<open>
  Every test of \<open>reshard_to_collectives.mlir\<close> that is checked (the three at the
  end of the file are commented out): the sharding of the argument, the sharding of the
  \<open>sdy.reshard\<close>, and the value returned after the pass, as the
  \<open>CHECK-NEXT\<close> lines have it. A dimension written with \<open>?\<close> is
  open.
\<close>

record ReshardTest =
  source :: TensorShardingAttr
  target :: TensorShardingAttr
  expected :: Val

definition ax :: "string \<Rightarrow> AxisRefAttr" where
  "ax n = AxisRef n None"

definition sub :: "string \<Rightarrow> int \<Rightarrow> int \<Rightarrow> AxisRefAttr" where
  "sub n p k = AxisRef n (Some (SubAxisInfo p k))"

definition closed :: "string \<Rightarrow> AxisRefAttr list list \<Rightarrow> TensorShardingAttr" where
  "closed mesh dims =
     \<lparr>mesh_or_ref = MeshRef mesh,
      dim_shardings = map (\<lambda>as. \<lparr>axes = as, is_closed = True, priority = None\<rparr>) dims,
      replicated_axes = [], unreduced_axes = []\<rparr>"

definition opened :: "string \<Rightarrow> AxisRefAttr list list \<Rightarrow> TensorShardingAttr" where
  "opened mesh dims =
     \<lparr>mesh_or_ref = MeshRef mesh,
      dim_shardings = map (\<lambda>as. \<lparr>axes = as, is_closed = False, priority = None\<rparr>) dims,
      replicated_axes = [], unreduced_axes = []\<rparr>"

text \<open>The meshes that the test file declares, by name.\<close>

definition meshes :: "(string \<times> Mesh) list" where
  "meshes =
     [(''mesh1d_6'', [(''x'', 6)]),
      (''mesh2d'', [(''x'', 2), (''y'', 2)]),
      (''mesh2d_4x2'', [(''x'', 4), (''y'', 2)]),
      (''mesh2d_2x8'', [(''x'', 2), (''y'', 8)]),
      (''mesh2d_2x3'', [(''x'', 2), (''y'', 3)]),
      (''mesh3d'', [(''x'', 2), (''y'', 2), (''z'', 2)]),
      (''mesh3d_4x2x4'', [(''x'', 4), (''y'', 2), (''z'', 4)]),
      (''mesh4d'', [(''x'', 2), (''y'', 2), (''z'', 2), (''w'', 2)]),
      (''mesh4d_z4'', [(''x'', 2), (''y'', 2), (''z'', 4), (''w'', 2)]),
      (''mesh4d_w4'', [(''x'', 2), (''y'', 2), (''z'', 2), (''w'', 4)]),
      (''mesh4d_w16'', [(''x'', 2), (''y'', 2), (''z'', 2), (''w'', 16)]),
      (''mesh6d'', [(''x'', 2), (''y'', 2), (''z'', 2), (''w'', 2), (''u'', 2), (''v'', 2)])]"

fun meshOf :: "MeshOrRef \<Rightarrow> Mesh" where
  "meshOf (MeshRef n) = (case map_of meshes n of Some mesh \<Rightarrow> mesh | None \<Rightarrow> [])"
| "meshOf (InlinedMesh meshAxes deviceIds) = meshAxes"

definition redundant_reshard :: ReshardTest where
  "redundant_reshard =
     \<lparr>source = closed ''mesh2d'' [[ax ''x''], [ax ''y'']],
      target = opened ''mesh2d'' [[ax ''x''], [ax ''y'']],
      expected =
        BlockArg 0\<rparr>"

definition all_gather_single_axis :: ReshardTest where
  "all_gather_single_axis =
     \<lparr>source = closed ''mesh2d'' [[ax ''y''], [ax ''x'']],
      target = closed ''mesh2d'' [[ax ''y''], []],
      expected =
        AllGatherOp (BlockArg 0)
          [[], [ax ''x'']]
          (closed ''mesh2d'' [[ax ''y''], []])\<rparr>"

definition all_gather_multiple_axes :: ReshardTest where
  "all_gather_multiple_axes =
     \<lparr>source = closed ''mesh3d'' [[ax ''x'', ax ''y'', ax ''z''], []],
      target = closed ''mesh3d'' [[ax ''x''], []],
      expected =
        AllGatherOp (BlockArg 0)
          [[ax ''y'', ax ''z''], []]
          (closed ''mesh3d'' [[ax ''x''], []])\<rparr>"

definition all_gather_multiple_dims :: ReshardTest where
  "all_gather_multiple_dims =
     \<lparr>source = closed ''mesh3d'' [[ax ''y'', ax ''z''], [ax ''x'']],
      target = closed ''mesh3d'' [[ax ''y''], [ax ''x'']],
      expected =
        AllGatherOp (BlockArg 0)
          [[ax ''z''], []]
          (closed ''mesh3d'' [[ax ''y''], [ax ''x'']])\<rparr>"

definition all_gather_with_subaxis :: ReshardTest where
  "all_gather_with_subaxis =
     \<lparr>source = closed ''mesh2d_2x8'' [[ax ''y''], [ax ''x'']],
      target = closed ''mesh2d_2x8'' [[sub ''y'' 1 4], [ax ''x'']],
      expected =
        AllGatherOp (BlockArg 0)
          [[sub ''y'' 4 2], []]
          (closed ''mesh2d_2x8'' [[sub ''y'' 1 4], [ax ''x'']])\<rparr>"

definition all_slice_multiple_axes :: ReshardTest where
  "all_slice_multiple_axes =
     \<lparr>source = closed ''mesh3d'' [[], []],
      target = closed ''mesh3d'' [[ax ''x''], [ax ''y'', ax ''z'']],
      expected =
        AllSliceOp (BlockArg 0)
          [[ax ''x''], [ax ''y'', ax ''z'']]
          (closed ''mesh3d'' [[ax ''x''], [ax ''y'', ax ''z'']])\<rparr>"

definition all_slice_minor_axis :: ReshardTest where
  "all_slice_minor_axis =
     \<lparr>source = closed ''mesh3d'' [[ax ''x''], [ax ''y'']],
      target = closed ''mesh3d'' [[ax ''x''], [ax ''y'', ax ''z'']],
      expected =
        AllSliceOp (BlockArg 0)
          [[], [ax ''z'']]
          (closed ''mesh3d'' [[ax ''x''], [ax ''y'', ax ''z'']])\<rparr>"

definition all_slice_with_subaxis :: ReshardTest where
  "all_slice_with_subaxis =
     \<lparr>source = closed ''mesh3d_4x2x4'' [[sub ''x'' 1 2], [ax ''y'']],
      target = closed ''mesh3d_4x2x4'' [[ax ''x''], [ax ''y'', sub ''z'' 1 2]],
      expected =
        AllSliceOp (BlockArg 0)
          [[sub ''x'' 2 2], [sub ''z'' 1 2]]
          (closed ''mesh3d_4x2x4'' [[ax ''x''], [ax ''y'', sub ''z'' 1 2]])\<rparr>"

definition all_to_all_single_axis :: ReshardTest where
  "all_to_all_single_axis =
     \<lparr>source = closed ''mesh3d'' [[ax ''x''], [ax ''y''], []],
      target = closed ''mesh3d'' [[], [ax ''y''], [ax ''x'']],
      expected =
        AllToAllOp (BlockArg 0)
          [AllToAllParam [ax ''x''] 0 2]
          (closed ''mesh3d'' [[], [ax ''y''], [ax ''x'']])\<rparr>"

definition all_to_all_multiple_axes :: ReshardTest where
  "all_to_all_multiple_axes =
     \<lparr>source = closed ''mesh3d'' [[ax ''x''], [], [ax ''y'', ax ''z'']],
      target = closed ''mesh3d'' [[ax ''x''], [ax ''y'', ax ''z''], []],
      expected =
        AllToAllOp (BlockArg 0)
          [AllToAllParam [ax ''y'', ax ''z''] 2 1]
          (closed ''mesh3d'' [[ax ''x''], [ax ''y'', ax ''z''], []])\<rparr>"

definition two_all_to_alls_different_tgt_dims :: ReshardTest where
  "two_all_to_alls_different_tgt_dims =
     \<lparr>source = closed ''mesh3d_4x2x4'' [[], [ax ''y'', ax ''x''], []],
      target = closed ''mesh3d_4x2x4'' [[ax ''x''], [], [ax ''y'']],
      expected =
        AllToAllOp
          (AllToAllOp (BlockArg 0)
            [AllToAllParam [ax ''x''] 1 0]
            (closed ''mesh3d_4x2x4'' [[ax ''x''], [ax ''y''], []]))
          [AllToAllParam [ax ''y''] 1 2]
          (closed ''mesh3d_4x2x4'' [[ax ''x''], [], [ax ''y'']])\<rparr>"

definition two_all_to_alls_tgt_dim_not_empty :: ReshardTest where
  "two_all_to_alls_tgt_dim_not_empty =
     \<lparr>source = closed ''mesh3d_4x2x4'' [[ax ''x''], [ax ''y'', ax ''z''], []],
      target = closed ''mesh3d_4x2x4'' [[ax ''x'', ax ''z''], [], [ax ''y'']],
      expected =
        AllToAllOp
          (AllToAllOp (BlockArg 0)
            [AllToAllParam [ax ''z''] 1 0]
            (closed ''mesh3d_4x2x4'' [[ax ''x'', ax ''z''], [ax ''y''], []]))
          [AllToAllParam [ax ''y''] 1 2]
          (closed ''mesh3d_4x2x4'' [[ax ''x'', ax ''z''], [], [ax ''y'']])\<rparr>"

definition slice_then_all_to_alls :: ReshardTest where
  "slice_then_all_to_alls =
     \<lparr>source = closed ''mesh3d_4x2x4'' [[], [ax ''y'', ax ''z''], []],
      target = closed ''mesh3d_4x2x4'' [[ax ''x'', ax ''z''], [], [ax ''y'']],
      expected =
        AllToAllOp
          (AllToAllOp
            (AllSliceOp (BlockArg 0)
              [[ax ''x''], [], []]
              (closed ''mesh3d_4x2x4'' [[ax ''x''], [ax ''y'', ax ''z''], []]))
            [AllToAllParam [ax ''z''] 1 0]
            (closed ''mesh3d_4x2x4'' [[ax ''x'', ax ''z''], [ax ''y''], []]))
          [AllToAllParam [ax ''y''] 1 2]
          (closed ''mesh3d_4x2x4'' [[ax ''x'', ax ''z''], [], [ax ''y'']])\<rparr>"

definition all_to_all_subaxis_then_all_gather :: ReshardTest where
  "all_to_all_subaxis_then_all_gather =
     \<lparr>source = closed ''mesh3d_4x2x4'' [[ax ''x''], [ax ''z'', ax ''y''], []],
      target = closed ''mesh3d_4x2x4'' [[ax ''x'', sub ''z'' 2 2], [], [ax ''y'']],
      expected =
        AllGatherOp
          (AllToAllOp
            (AllToAllOp (BlockArg 0)
              [AllToAllParam [ax ''y''] 1 2]
              (closed ''mesh3d_4x2x4'' [[ax ''x''], [ax ''z''], [ax ''y'']]))
            [AllToAllParam [sub ''z'' 2 2] 1 0]
            (closed ''mesh3d_4x2x4'' [[ax ''x'', sub ''z'' 2 2], [sub ''z'' 1 2], [ax ''y'']]))
          [[], [sub ''z'' 1 2], []]
          (closed ''mesh3d_4x2x4'' [[ax ''x'', sub ''z'' 2 2], [], [ax ''y'']])\<rparr>"

definition all_to_all_subaxis_and_full_axis_then_all_gather :: ReshardTest where
  "all_to_all_subaxis_and_full_axis_then_all_gather =
     \<lparr>source = closed ''mesh4d_z4'' [[ax ''x''], [ax ''z'', ax ''w'', ax ''y''], []],
      target = closed ''mesh4d_z4'' [[ax ''x'', sub ''z'' 2 2, ax ''w''], [], [ax ''y'']],
      expected =
        AllGatherOp
          (AllToAllOp
            (AllToAllOp (BlockArg 0)
              [AllToAllParam [ax ''y''] 1 2]
              (closed ''mesh4d_z4'' [[ax ''x''], [ax ''z'', ax ''w''], [ax ''y'']]))
            [AllToAllParam [sub ''z'' 2 2, ax ''w''] 1 0]
            (closed ''mesh4d_z4'' [[ax ''x'', sub ''z'' 2 2, ax ''w''], [sub ''z'' 1 2],
               [ax ''y'']]))
          [[], [sub ''z'' 1 2], []]
          (closed ''mesh4d_z4'' [[ax ''x'', sub ''z'' 2 2, ax ''w''], [], [ax ''y'']])\<rparr>"

definition slice_on_src_dim_then_all_to_all_subaxis :: ReshardTest where
  "slice_on_src_dim_then_all_to_all_subaxis =
     \<lparr>source = closed ''mesh4d_w4'' [[], [sub ''w'' 1 2], []],
      target = closed ''mesh4d_w4'' [[ax ''w''], [], []],
      expected =
        AllToAllOp
          (CollectivePermuteOp
            (AllSliceOp (BlockArg 0)
              [[sub ''w'' 2 2], [], []]
              (closed ''mesh4d_w4'' [[sub ''w'' 2 2], [sub ''w'' 1 2], []]))
            (closed ''mesh4d_w4'' [[sub ''w'' 1 2], [sub ''w'' 2 2], []]))
          [AllToAllParam [sub ''w'' 2 2] 1 0]
          (closed ''mesh4d_w4'' [[ax ''w''], [], []])\<rparr>"

definition slice_on_src_dim_then_all_to_all_multiple_axes :: ReshardTest where
  "slice_on_src_dim_then_all_to_all_multiple_axes =
     \<lparr>source = closed ''mesh4d_w4'' [[], [ax ''x''], []],
      target = closed ''mesh4d_w4'' [[], [], [ax ''x'', ax ''y'', ax ''z'']],
      expected =
        AllToAllOp
          (CollectivePermuteOp
            (AllSliceOp (BlockArg 0)
              [[], [], [ax ''y'', ax ''z'']]
              (closed ''mesh4d_w4'' [[], [ax ''x''], [ax ''y'', ax ''z'']]))
            (closed ''mesh4d_w4'' [[], [ax ''z''], [ax ''x'', ax ''y'']]))
          [AllToAllParam [ax ''z''] 1 2]
          (closed ''mesh4d_w4'' [[], [], [ax ''x'', ax ''y'', ax ''z'']])\<rparr>"

definition replace_same_size_axes_same_dim :: ReshardTest where
  "replace_same_size_axes_same_dim =
     \<lparr>source = closed ''mesh3d'' [[ax ''z''], [ax ''y'']],
      target = closed ''mesh3d'' [[ax ''z''], [ax ''x'']],
      expected =
        CollectivePermuteOp (BlockArg 0)
          (closed ''mesh3d'' [[ax ''z''], [ax ''x'']])\<rparr>"

definition replace_smaller_axis_with_bigger_same_dim :: ReshardTest where
  "replace_smaller_axis_with_bigger_same_dim =
     \<lparr>source = closed ''mesh3d_4x2x4'' [[ax ''z''], [ax ''y'']],
      target = closed ''mesh3d_4x2x4'' [[ax ''z''], [ax ''x'']],
      expected =
        CollectivePermuteOp
          (AllSliceOp (BlockArg 0)
            [[], [sub ''x'' 1 2]]
            (closed ''mesh3d_4x2x4'' [[ax ''z''], [ax ''y'', sub ''x'' 1 2]]))
          (closed ''mesh3d_4x2x4'' [[ax ''z''], [ax ''x'']])\<rparr>"

definition replace_bigger_axis_with_smaller_same_dim :: ReshardTest where
  "replace_bigger_axis_with_smaller_same_dim =
     \<lparr>source = closed ''mesh3d_4x2x4'' [[ax ''z''], [ax ''x'']],
      target = closed ''mesh3d_4x2x4'' [[ax ''z''], [ax ''y'']],
      expected =
        AllGatherOp
          (CollectivePermuteOp (BlockArg 0)
            (closed ''mesh3d_4x2x4'' [[ax ''z''], [ax ''y'', sub ''x'' 1 2]]))
          [[], [sub ''x'' 1 2]]
          (closed ''mesh3d_4x2x4'' [[ax ''z''], [ax ''y'']])\<rparr>"

definition replace_major_most_axis_in_dim :: ReshardTest where
  "replace_major_most_axis_in_dim =
     \<lparr>source = closed ''mesh4d'' [[ax ''x'', ax ''y'', ax ''z''], []],
      target = closed ''mesh4d'' [[ax ''w'', ax ''y'', ax ''z''], []],
      expected =
        CollectivePermuteOp (BlockArg 0)
          (closed ''mesh4d'' [[ax ''w'', ax ''y'', ax ''z''], []])\<rparr>"

definition replace_same_size_axes_diff_dims :: ReshardTest where
  "replace_same_size_axes_diff_dims =
     \<lparr>source = closed ''mesh2d'' [[ax ''x''], []],
      target = closed ''mesh2d'' [[], [ax ''y'']],
      expected =
        AllGatherOp
          (AllSliceOp (BlockArg 0)
            [[], [ax ''y'']]
            (closed ''mesh2d'' [[ax ''x''], [ax ''y'']]))
          [[ax ''x''], []]
          (closed ''mesh2d'' [[], [ax ''y'']])\<rparr>"

definition replace_bigger_axis_with_smaller_diff_dims :: ReshardTest where
  "replace_bigger_axis_with_smaller_diff_dims =
     \<lparr>source = closed ''mesh2d_4x2'' [[ax ''x''], []],
      target = closed ''mesh2d_4x2'' [[], [ax ''y'']],
      expected =
        AllGatherOp
          (AllSliceOp (BlockArg 0)
            [[], [ax ''y'']]
            (closed ''mesh2d_4x2'' [[ax ''x''], [ax ''y'']]))
          [[ax ''x''], []]
          (closed ''mesh2d_4x2'' [[], [ax ''y'']])\<rparr>"

definition replace_multiple_axes_diff_dims :: ReshardTest where
  "replace_multiple_axes_diff_dims =
     \<lparr>source = closed ''mesh6d'' [[ax ''x''], [ax ''y'', ax ''z''], [], []],
      target = closed ''mesh6d'' [[], [], [ax ''w'', ax ''u''], [ax ''v'']],
      expected =
        AllGatherOp
          (AllSliceOp (BlockArg 0)
            [[], [], [ax ''w'', ax ''u''], [ax ''v'']]
            (closed ''mesh6d'' [[ax ''x''], [ax ''y'', ax ''z''], [ax ''w'', ax ''u''],
               [ax ''v'']]))
          [[ax ''x''], [ax ''y'', ax ''z''], [], []]
          (closed ''mesh6d'' [[], [], [ax ''w'', ax ''u''], [ax ''v'']])\<rparr>"

definition replace_smaller_axis_with_bigger_diff_dims :: ReshardTest where
  "replace_smaller_axis_with_bigger_diff_dims =
     \<lparr>source = closed ''mesh2d_4x2'' [[ax ''y''], []],
      target = closed ''mesh2d_4x2'' [[], [ax ''x'']],
      expected =
        AllGatherOp
          (AllSliceOp (BlockArg 0)
            [[], [ax ''x'']]
            (closed ''mesh2d_4x2'' [[ax ''y''], [ax ''x'']]))
          [[ax ''y''], []]
          (closed ''mesh2d_4x2'' [[], [ax ''x'']])\<rparr>"

definition slice_tgt_dim_then_all_to_all_then_all_gather :: ReshardTest where
  "slice_tgt_dim_then_all_to_all_then_all_gather =
     \<lparr>source = closed ''mesh4d_w4'' [[ax ''y'', ax ''z'', ax ''w''], []],
      target = closed ''mesh4d_w4'' [[ax ''y''], [ax ''x'', ax ''w'']],
      expected =
        AllGatherOp
          (AllToAllOp
            (AllSliceOp (BlockArg 0)
              [[], [ax ''x'']]
              (closed ''mesh4d_w4'' [[ax ''y'', ax ''z'', ax ''w''], [ax ''x'']]))
            [AllToAllParam [ax ''w''] 0 1]
            (closed ''mesh4d_w4'' [[ax ''y'', ax ''z''], [ax ''x'', ax ''w'']]))
          [[ax ''z''], []]
          (closed ''mesh4d_w4'' [[ax ''y''], [ax ''x'', ax ''w'']])\<rparr>"

definition swap_same_size_axes_between_dims :: ReshardTest where
  "swap_same_size_axes_between_dims =
     \<lparr>source = closed ''mesh2d'' [[ax ''x''], [ax ''y'']],
      target = closed ''mesh2d'' [[ax ''y''], [ax ''x'']],
      expected =
        CollectivePermuteOp (BlockArg 0)
          (closed ''mesh2d'' [[ax ''y''], [ax ''x'']])\<rparr>"

definition swap_diff_size_axes_between_dims :: ReshardTest where
  "swap_diff_size_axes_between_dims =
     \<lparr>source = closed ''mesh2d_4x2'' [[ax ''x''], [ax ''y'']],
      target = closed ''mesh2d_4x2'' [[ax ''y''], [ax ''x'']],
      expected =
        AllToAllOp
          (CollectivePermuteOp (BlockArg 0)
            (closed ''mesh2d_4x2'' [[ax ''y'', sub ''x'' 2 2], [sub ''x'' 1 2]]))
          [AllToAllParam [sub ''x'' 2 2] 0 1]
          (closed ''mesh2d_4x2'' [[ax ''y''], [ax ''x'']])\<rparr>"

definition slice_and_swap_axes_between_dims :: ReshardTest where
  "slice_and_swap_axes_between_dims =
     \<lparr>source = closed ''mesh3d'' [[ax ''x''], [ax ''y'']],
      target = closed ''mesh3d'' [[ax ''x'', ax ''y''], [ax ''z'']],
      expected =
        CollectivePermuteOp
          (AllSliceOp (BlockArg 0)
            [[ax ''z''], []]
            (closed ''mesh3d'' [[ax ''x'', ax ''z''], [ax ''y'']]))
          (closed ''mesh3d'' [[ax ''x'', ax ''y''], [ax ''z'']])\<rparr>"

definition slice_sub_axes_then_swap_between_dims :: ReshardTest where
  "slice_sub_axes_then_swap_between_dims =
     \<lparr>source = closed ''mesh3d_4x2x4'' [[ax ''z''], [ax ''y'']],
      target = closed ''mesh3d_4x2x4'' [[ax ''y'', ax ''z''], [ax ''x'']],
      expected =
        CollectivePermuteOp
          (AllSliceOp (BlockArg 0)
            [[sub ''x'' 2 2], [sub ''x'' 1 2]]
            (closed ''mesh3d_4x2x4'' [[ax ''z'', sub ''x'' 2 2], [ax ''y'', sub ''x'' 1 2]]))
          (closed ''mesh3d_4x2x4'' [[ax ''y'', ax ''z''], [ax ''x'']])\<rparr>"

definition swap_sub_axes_then_all_to_all_and_all_gather :: ReshardTest where
  "swap_sub_axes_then_all_to_all_and_all_gather =
     \<lparr>source = closed ''mesh3d_4x2x4'' [[ax ''z'', ax ''y''], [ax ''x'']],
      target = closed ''mesh3d_4x2x4'' [[ax ''x'', ax ''z''], []],
      expected =
        AllGatherOp
          (AllToAllOp
            (CollectivePermuteOp (BlockArg 0)
              (closed ''mesh3d_4x2x4'' [[ax ''x'', sub ''z'' 1 2], [ax ''y'', sub ''z'' 2 2]]))
            [AllToAllParam [sub ''z'' 2 2] 1 0]
            (closed ''mesh3d_4x2x4'' [[ax ''x'', ax ''z''], [ax ''y'']]))
          [[], [ax ''y'']]
          (closed ''mesh3d_4x2x4'' [[ax ''x'', ax ''z''], []])\<rparr>"

definition reorder_axes_single_dim :: ReshardTest where
  "reorder_axes_single_dim =
     \<lparr>source = closed ''mesh3d_4x2x4'' [[ax ''x'', ax ''y''], [ax ''z'']],
      target = closed ''mesh3d_4x2x4'' [[ax ''y'', ax ''x''], [ax ''z'']],
      expected =
        CollectivePermuteOp (BlockArg 0)
          (closed ''mesh3d_4x2x4'' [[ax ''y'', ax ''x''], [ax ''z'']])\<rparr>"

definition reorder_axes_across_dims :: ReshardTest where
  "reorder_axes_across_dims =
     \<lparr>source = closed ''mesh3d_4x2x4'' [[ax ''x'', ax ''y''], [ax ''z'']],
      target = closed ''mesh3d_4x2x4'' [[ax ''y'', ax ''z''], [ax ''x'']],
      expected =
        CollectivePermuteOp (BlockArg 0)
          (closed ''mesh3d_4x2x4'' [[ax ''y'', ax ''z''], [ax ''x'']])\<rparr>"

definition slice_then_reorder_axes :: ReshardTest where
  "slice_then_reorder_axes =
     \<lparr>source = closed ''mesh2d'' [[ax ''y''], [], []],
      target = closed ''mesh2d'' [[ax ''x'', ax ''y''], [], []],
      expected =
        CollectivePermuteOp
          (AllSliceOp (BlockArg 0)
            [[ax ''x''], [], []]
            (closed ''mesh2d'' [[ax ''y'', ax ''x''], [], []]))
          (closed ''mesh2d'' [[ax ''x'', ax ''y''], [], []])\<rparr>"

definition reorder_axes_for_all_gather :: ReshardTest where
  "reorder_axes_for_all_gather =
     \<lparr>source = closed ''mesh3d'' [[ax ''y'', ax ''x'', ax ''z''], []],
      target = closed ''mesh3d'' [[ax ''z''], []],
      expected =
        AllGatherOp
          (CollectivePermuteOp (BlockArg 0)
            (closed ''mesh3d'' [[ax ''z'', ax ''y'', ax ''x''], []]))
          [[ax ''y'', ax ''x''], []]
          (closed ''mesh3d'' [[ax ''z''], []])\<rparr>"

definition reorder_axes_for_all_to_all_then_all_gather_single_axis :: ReshardTest where
  "reorder_axes_for_all_to_all_then_all_gather_single_axis =
     \<lparr>source = closed ''mesh3d'' [[ax ''y'', ax ''x'', ax ''z''], []],
      target = closed ''mesh3d'' [[ax ''z''], [ax ''y'']],
      expected =
        AllGatherOp
          (AllToAllOp
            (CollectivePermuteOp (BlockArg 0)
              (closed ''mesh3d'' [[ax ''z'', ax ''x'', ax ''y''], []]))
            [AllToAllParam [ax ''y''] 0 1]
            (closed ''mesh3d'' [[ax ''z'', ax ''x''], [ax ''y'']]))
          [[ax ''x''], []]
          (closed ''mesh3d'' [[ax ''z''], [ax ''y'']])\<rparr>"

definition reorder_axes_for_all_to_all_then_all_gather_remaining_axes :: ReshardTest where
  "reorder_axes_for_all_to_all_then_all_gather_remaining_axes =
     \<lparr>source = closed ''mesh3d'' [[ax ''z'', ax ''y'', ax ''x''], []],
      target = closed ''mesh3d'' [[], [ax ''y'']],
      expected =
        AllGatherOp
          (AllToAllOp
            (CollectivePermuteOp (BlockArg 0)
              (closed ''mesh3d'' [[ax ''z'', ax ''x'', ax ''y''], []]))
            [AllToAllParam [ax ''y''] 0 1]
            (closed ''mesh3d'' [[ax ''z'', ax ''x''], [ax ''y'']]))
          [[ax ''z'', ax ''x''], []]
          (closed ''mesh3d'' [[], [ax ''y'']])\<rparr>"

definition all_to_all_axes_at_src_out_of_order :: ReshardTest where
  "all_to_all_axes_at_src_out_of_order =
     \<lparr>source = closed ''mesh2d'' [[], [ax ''y'', ax ''x''], []],
      target = closed ''mesh2d'' [[ax ''x'', ax ''y''], [], []],
      expected =
        AllToAllOp
          (CollectivePermuteOp (BlockArg 0)
            (closed ''mesh2d'' [[], [ax ''x'', ax ''y''], []]))
          [AllToAllParam [ax ''x'', ax ''y''] 1 0]
          (closed ''mesh2d'' [[ax ''x'', ax ''y''], [], []])\<rparr>"

definition all_to_all_axes_at_src_and_tgt_out_of_order :: ReshardTest where
  "all_to_all_axes_at_src_and_tgt_out_of_order =
     \<lparr>source = closed ''mesh3d_4x2x4'' [[ax ''z''], [ax ''y'', ax ''x''], []],
      target = closed ''mesh3d_4x2x4'' [[ax ''x'', ax ''y'', ax ''z''], [], []],
      expected =
        AllToAllOp
          (CollectivePermuteOp (BlockArg 0)
            (closed ''mesh3d_4x2x4'' [[ax ''x''], [ax ''y'', ax ''z''], []]))
          [AllToAllParam [ax ''y'', ax ''z''] 1 0]
          (closed ''mesh3d_4x2x4'' [[ax ''x'', ax ''y'', ax ''z''], [], []])\<rparr>"

definition all_to_all_two_tgt_dims_src_out_of_order :: ReshardTest where
  "all_to_all_two_tgt_dims_src_out_of_order =
     \<lparr>source = closed ''mesh3d_4x2x4'' [[], [ax ''x'', ax ''z'', ax ''y''], []],
      target = closed ''mesh3d_4x2x4'' [[ax ''x'', ax ''y''], [], [ax ''z'']],
      expected =
        AllToAllOp
          (AllToAllOp
            (CollectivePermuteOp (BlockArg 0)
              (closed ''mesh3d_4x2x4'' [[], [ax ''x'', ax ''y'', ax ''z''], []]))
            [AllToAllParam [ax ''z''] 1 2]
            (closed ''mesh3d_4x2x4'' [[], [ax ''x'', ax ''y''], [ax ''z'']]))
          [AllToAllParam [ax ''x'', ax ''y''] 1 0]
          (closed ''mesh3d_4x2x4'' [[ax ''x'', ax ''y''], [], [ax ''z'']])\<rparr>"

definition all_to_all_two_tgt_dims_src_out_of_order_2 :: ReshardTest where
  "all_to_all_two_tgt_dims_src_out_of_order_2 =
     \<lparr>source = closed ''mesh3d_4x2x4'' [[], [ax ''y'', ax ''z'', ax ''x''], []],
      target = closed ''mesh3d_4x2x4'' [[ax ''x'', ax ''y''], [], [ax ''z'']],
      expected =
        AllToAllOp
          (AllToAllOp
            (CollectivePermuteOp (BlockArg 0)
              (closed ''mesh3d_4x2x4'' [[], [ax ''x'', ax ''y'', ax ''z''], []]))
            [AllToAllParam [ax ''z''] 1 2]
            (closed ''mesh3d_4x2x4'' [[], [ax ''x'', ax ''y''], [ax ''z'']]))
          [AllToAllParam [ax ''x'', ax ''y''] 1 0]
          (closed ''mesh3d_4x2x4'' [[ax ''x'', ax ''y''], [], [ax ''z'']])\<rparr>"

definition all_to_all_and_gather_src_dim_out_of_order :: ReshardTest where
  "all_to_all_and_gather_src_dim_out_of_order =
     \<lparr>source = closed ''mesh4d_z4'' [[ax ''x''], [ax ''y'', ax ''z'', ax ''w''], []],
      target = closed ''mesh4d_z4'' [[ax ''x'', sub ''z'' 2 2, ax ''w''], [], [ax ''y'']],
      expected =
        AllGatherOp
          (AllToAllOp
            (AllToAllOp
              (CollectivePermuteOp (BlockArg 0)
                (closed ''mesh4d_z4'' [[ax ''x''], [ax ''z'', ax ''w'', ax ''y''], []]))
              [AllToAllParam [ax ''y''] 1 2]
              (closed ''mesh4d_z4'' [[ax ''x''], [ax ''z'', ax ''w''], [ax ''y'']]))
            [AllToAllParam [sub ''z'' 2 2, ax ''w''] 1 0]
            (closed ''mesh4d_z4'' [[ax ''x'', sub ''z'' 2 2, ax ''w''], [sub ''z'' 1 2],
               [ax ''y'']]))
          [[], [sub ''z'' 1 2], []]
          (closed ''mesh4d_z4'' [[ax ''x'', sub ''z'' 2 2, ax ''w''], [], [ax ''y'']])\<rparr>"

definition reorder_sub_axes :: ReshardTest where
  "reorder_sub_axes =
     \<lparr>source = closed ''mesh4d_w4'' [[ax ''y'', sub ''w'' 1 2, ax ''z'', sub ''w'' 2 2],
                []],
      target = closed ''mesh4d_w4'' [[ax ''y''], [ax ''x'', ax ''w'']],
      expected =
        AllGatherOp
          (AllToAllOp
            (CollectivePermuteOp
              (AllSliceOp (BlockArg 0)
                [[], [ax ''x'']]
                (closed ''mesh4d_w4'' [[ax ''y'', sub ''w'' 1 2, ax ''z'', sub ''w'' 2 2],
                   [ax ''x'']]))
              (closed ''mesh4d_w4'' [[ax ''y'', ax ''z'', ax ''w''], [ax ''x'']]))
            [AllToAllParam [ax ''w''] 0 1]
            (closed ''mesh4d_w4'' [[ax ''y'', ax ''z''], [ax ''x'', ax ''w'']]))
          [[ax ''z''], []]
          (closed ''mesh4d_w4'' [[ax ''y''], [ax ''x'', ax ''w'']])\<rparr>"

definition replace_sub_axes :: ReshardTest where
  "replace_sub_axes =
     \<lparr>source = closed ''mesh4d_w4'' [[ax ''y'', ax ''z'', sub ''w'' 2 2], []],
      target = closed ''mesh4d_w4'' [[ax ''y''], [ax ''x'', ax ''w'']],
      expected =
        AllGatherOp
          (AllToAllOp
            (AllSliceOp (BlockArg 0)
              [[], [ax ''x'', sub ''w'' 1 2]]
              (closed ''mesh4d_w4'' [[ax ''y'', ax ''z'', sub ''w'' 2 2],
                 [ax ''x'', sub ''w'' 1 2]]))
            [AllToAllParam [sub ''w'' 2 2] 0 1]
            (closed ''mesh4d_w4'' [[ax ''y'', ax ''z''], [ax ''x'', ax ''w'']]))
          [[ax ''z''], []]
          (closed ''mesh4d_w4'' [[ax ''y''], [ax ''x'', ax ''w'']])\<rparr>"

definition replace_sub_axes_2 :: ReshardTest where
  "replace_sub_axes_2 =
     \<lparr>source = closed ''mesh4d_w4'' [[ax ''y'', ax ''z'', sub ''w'' 1 2], []],
      target = closed ''mesh4d_w4'' [[ax ''y''], [ax ''x'', ax ''w'']],
      expected =
        AllGatherOp
          (AllToAllOp
            (CollectivePermuteOp
              (AllSliceOp (BlockArg 0)
                [[], [ax ''x'', sub ''w'' 2 2]]
                (closed ''mesh4d_w4'' [[ax ''y'', ax ''z'', sub ''w'' 1 2],
                   [ax ''x'', sub ''w'' 2 2]]))
              (closed ''mesh4d_w4'' [[ax ''y'', ax ''z'', sub ''w'' 2 2],
                 [ax ''x'', sub ''w'' 1 2]]))
            [AllToAllParam [sub ''w'' 2 2] 0 1]
            (closed ''mesh4d_w4'' [[ax ''y'', ax ''z''], [ax ''x'', ax ''w'']]))
          [[ax ''z''], []]
          (closed ''mesh4d_w4'' [[ax ''y''], [ax ''x'', ax ''w'']])\<rparr>"

definition replace_sub_axes_3 :: ReshardTest where
  "replace_sub_axes_3 =
     \<lparr>source = closed ''mesh4d_w16'' [[ax ''y'', sub ''w'' 4 2, ax ''z'', sub ''w'' 1 2],
                []],
      target = closed ''mesh4d_w16'' [[ax ''y''], [ax ''x'', sub ''w'' 2 8]],
      expected =
        AllGatherOp
          (AllToAllOp
            (CollectivePermuteOp
              (AllSliceOp (BlockArg 0)
                [[], [ax ''x'', sub ''w'' 2 2, sub ''w'' 8 2]]
                (closed ''mesh4d_w16'' [[ax ''y'', sub ''w'' 4 2, ax ''z'', sub ''w'' 1 2],
                   [ax ''x'', sub ''w'' 2 2, sub ''w'' 8 2]]))
              (closed ''mesh4d_w16'' [[ax ''y'', ax ''z'', sub ''w'' 1 2, sub ''w'' 8 2],
                 [ax ''x'', sub ''w'' 2 4]]))
            [AllToAllParam [sub ''w'' 8 2] 0 1]
            (closed ''mesh4d_w16'' [[ax ''y'', ax ''z'', sub ''w'' 1 2],
               [ax ''x'', sub ''w'' 2 8]]))
          [[ax ''z'', sub ''w'' 1 2], []]
          (closed ''mesh4d_w16'' [[ax ''y''], [ax ''x'', sub ''w'' 2 8]])\<rparr>"

definition replace_sub_axes_4 :: ReshardTest where
  "replace_sub_axes_4 =
     \<lparr>source = closed ''mesh4d_w16'' [[ax ''y'', sub ''w'' 4 2, ax ''z'', sub ''w'' 1 2],
                []],
      target = closed ''mesh4d_w16'' [[ax ''y''], [ax ''x'', ax ''w'']],
      expected =
        AllGatherOp
          (AllToAllOp
            (CollectivePermuteOp
              (AllSliceOp (BlockArg 0)
                [[], [ax ''x'', sub ''w'' 2 2, sub ''w'' 8 2]]
                (closed ''mesh4d_w16'' [[ax ''y'', sub ''w'' 4 2, ax ''z'', sub ''w'' 1 2],
                   [ax ''x'', sub ''w'' 2 2, sub ''w'' 8 2]]))
              (closed ''mesh4d_w16'' [[ax ''y'', ax ''z'', sub ''w'' 4 4],
                 [ax ''x'', sub ''w'' 1 4]]))
            [AllToAllParam [sub ''w'' 4 4] 0 1]
            (closed ''mesh4d_w16'' [[ax ''y'', ax ''z''], [ax ''x'', ax ''w'']]))
          [[ax ''z''], []]
          (closed ''mesh4d_w16'' [[ax ''y''], [ax ''x'', ax ''w'']])\<rparr>"

definition reshard_to_collectives_tests :: "ReshardTest list" where
  "reshard_to_collectives_tests =
     [redundant_reshard, all_gather_single_axis, all_gather_multiple_axes,
      all_gather_multiple_dims, all_gather_with_subaxis, all_slice_multiple_axes,
      all_slice_minor_axis, all_slice_with_subaxis, all_to_all_single_axis,
      all_to_all_multiple_axes, two_all_to_alls_different_tgt_dims,
      two_all_to_alls_tgt_dim_not_empty, slice_then_all_to_alls,
      all_to_all_subaxis_then_all_gather, all_to_all_subaxis_and_full_axis_then_all_gather,
      slice_on_src_dim_then_all_to_all_subaxis,
      slice_on_src_dim_then_all_to_all_multiple_axes, replace_same_size_axes_same_dim,
      replace_smaller_axis_with_bigger_same_dim, replace_bigger_axis_with_smaller_same_dim,
      replace_major_most_axis_in_dim, replace_same_size_axes_diff_dims,
      replace_bigger_axis_with_smaller_diff_dims, replace_multiple_axes_diff_dims,
      replace_smaller_axis_with_bigger_diff_dims,
      slice_tgt_dim_then_all_to_all_then_all_gather, swap_same_size_axes_between_dims,
      swap_diff_size_axes_between_dims, slice_and_swap_axes_between_dims,
      slice_sub_axes_then_swap_between_dims, swap_sub_axes_then_all_to_all_and_all_gather,
      reorder_axes_single_dim, reorder_axes_across_dims, slice_then_reorder_axes,
      reorder_axes_for_all_gather, reorder_axes_for_all_to_all_then_all_gather_single_axis,
      reorder_axes_for_all_to_all_then_all_gather_remaining_axes,
      all_to_all_axes_at_src_out_of_order, all_to_all_axes_at_src_and_tgt_out_of_order,
      all_to_all_two_tgt_dims_src_out_of_order, all_to_all_two_tgt_dims_src_out_of_order_2,
      all_to_all_and_gather_src_dim_out_of_order, reorder_sub_axes, replace_sub_axes,
      replace_sub_axes_2, replace_sub_axes_3, replace_sub_axes_4]"

text \<open>
  The collectives of a returned value, in the order in which they run: the operand first.
\<close>

fun chain :: "Val \<Rightarrow> Val list" where
  "chain (BlockArg n) = []"
| "chain (ReshardOp v s) = chain v @ [ReshardOp v s]"
| "chain (AllGatherOp v as s) = chain v @ [AllGatherOp v as s]"
| "chain (AllSliceOp v as s) = chain v @ [AllSliceOp v as s]"
| "chain (AllReduceOp v as s) = chain v @ [AllReduceOp v as s]"
| "chain (CollectivePermuteOp v s) = chain v @ [CollectivePermuteOp v s]"
| "chain (AllToAllOp v ps s) = chain v @ [AllToAllOp v ps s]"

fun isPermute :: "Val \<Rightarrow> bool" where
  "isPermute (CollectivePermuteOp v s) = True"
| "isPermute _ = False"

definition numPermutes :: "Val \<Rightarrow> nat" where
  "numPermutes v = length (filter isPermute (chain v))"

text \<open>
  The order as the claim has it: the permutes come before every other collective.
\<close>

definition permutesFirst :: "Val \<Rightarrow> bool" where
  "permutesFirst v = list_all (\<lambda>c. \<not> isPermute c) (dropWhile isPermute (chain v))"

text \<open>
  The order of the expected sequences: all-slice, collective-permute, all-to-alls,
  all-gather.
\<close>

fun stage :: "Val \<Rightarrow> nat" where
  "stage (AllSliceOp v as s) = 0"
| "stage (CollectivePermuteOp v s) = 1"
| "stage (AllToAllOp v ps s) = 2"
| "stage (AllGatherOp v as s) = 3"
| "stage _ = 4"

definition stagesInOrder :: "Val \<Rightarrow> bool" where
  "stagesInOrder v = sorted (map stage (chain v))"


section \<open>Propagation\<close>


type_synonym ShardingTable = "DimensionShardingAttr list list"

definition dimAt :: "ShardingTable \<Rightarrow> nat \<times> nat \<Rightarrow> DimensionShardingAttr option" where
  "dimAt table vd =
     (if fst vd < length table \<and> snd vd < length (table ! fst vd)
      then Some (table ! fst vd ! snd vd) else None)"







text \<open>
  Modelled from the spec (the propagation engine is missing): the refinement of a dimension.
  "Apply that prefix to every mapped dimension that doesn't already have it, skipping
  dimensions whose DimensionSharding is closed": an open dimension whose axes the candidate
  properly extends takes the candidate; every other dimension keeps its axes ("incompatible
  ones are left unchanged").
\<close>

definition refineDim :: "AxisRefAttr list \<Rightarrow> ShardingTable \<Rightarrow> nat \<times> nat \<Rightarrow> ShardingTable" where
  "refineDim candidate table vd =
     (case dimAt table vd of
        None \<Rightarrow> table
      | Some ds \<Rightarrow>
          (if \<not> is_closed ds \<and> strict_prefix (axes ds) candidate
           then table[fst vd := (table ! fst vd)[snd vd := ds\<lparr>axes := candidate\<rparr>]]
           else table))"

















section \<open>Examples\<close>

text \<open>
  A builder for one operand of rank 2 and one result of rank 1, after a factor of size 4 was
  added to the first dimension of the operand; and one for an operand and a result of rank
  1, after the same call.
\<close>

definition exampleBuilder :: OpShardingRuleBuilder where
  "exampleBuilder =
     \<lparr>factorSizes = [4], operandMappings = [[[0], []]], resultMappings = [[[]]],
      reductionFactors = [], needReplicationFactors = [], permutationFactors = [],
      blockedPropagationFactors = []\<rparr>"

definition mappedBuilder :: OpShardingRuleBuilder where
  "mappedBuilder =
     \<lparr>factorSizes = [4], operandMappings = [[[0]]], resultMappings = [[[]]],
      reductionFactors = [], needReplicationFactors = [], permutationFactors = [],
      blockedPropagationFactors = []\<rparr>"


text \<open>
  A schedule of three heuristics, which give every operation the directions
  \<open>FORWARD\<close>, \<open>NONE\<close> and \<open>BACKWARD\<close>.
\<close>

definition exampleSchedule :: "(unit \<Rightarrow> PropagationDirection) list" where
  "exampleSchedule = [\<lambda>op. FORWARD, \<lambda>op. NONE, \<lambda>op. BACKWARD]"

text \<open>
  Two shardings on the mesh \<open>mesh4d_w4\<close> of the test file, where the axis
  \<open>w\<close> has size 4: the two halves of \<open>w\<close> one after the other, and
  \<open>w\<close> as a whole.
\<close>

definition splitW :: TensorShardingAttr where
  "splitW = closed ''mesh4d_w4'' [[sub ''w'' 1 2, sub ''w'' 2 2], []]"

definition wholeW :: TensorShardingAttr where
  "wholeW = opened ''mesh4d_w4'' [[ax ''w''], []]"


















section \<open>Properties of the rule builder\<close>

subsection \<open>Adding a factor\<close>

text \<open>The two example builders are what the constructor and one call of \<open>addFactor\<close> give.\<close>

lemma exampleBuilder_built:
  "addFactor (newBuilder [2] [1]) [0] [kNullDim] 4 kPassThrough False = Inr exampleBuilder"
  by (simp add: addFactor_def reserveFactor_def mapDimsToFactor_def newBuilder_def
        exampleBuilder_def kNullDim_def numeral_2_eq_2)

lemma mappedBuilder_built:
  "addFactor (newBuilder [1] [1]) [0] [kNullDim] 4 kPassThrough False = Inr mappedBuilder"
  by (simp add: addFactor_def reserveFactor_def mapDimsToFactor_def newBuilder_def
        mappedBuilder_def kNullDim_def)

lemma mapDimsLoop_ok:
  assumes "length tms = length dims"
    and "\<forall>i<length dims. dims ! i = kNullDim \<or> (0 \<le> dims ! i \<and> nat (dims ! i) < length (tms ! i))"
  shows "\<exists>r. mapDimsLoop tms dims fi fs = Inr r \<and> length r = length tms \<and>
           (\<forall>i<length tms. r ! i =
              (if dims ! i = kNullDim then tms ! i
               else if fs = 1 \<and> tms ! i ! nat (dims ! i) \<noteq> [] then tms ! i
               else (tms ! i)[nat (dims ! i) := tms ! i ! nat (dims ! i) @ [fi]]))"
  using assms
proof (induction tms dims rule: list_induct2)
  case Nil
  then show ?case by simp
next
  case (Cons tm tms d dims)
  have tl: "\<forall>i<length dims. dims ! i = kNullDim \<or> (0 \<le> dims ! i \<and> nat (dims ! i) < length (tms ! i))"
  proof (intro allI impI)
    fix i assume "i < length dims"
    then have "Suc i < length (d # dims)" by simp
    from Cons.prems[rule_format, OF this] show "dims ! i = kNullDim \<or> (0 \<le> dims ! i \<and> nat (dims ! i) < length (tms ! i))"
      by simp
  qed
  from Cons.IH[OF tl] obtain r where r: "mapDimsLoop tms dims fi fs = Inr r" "length r = length tms"
    "\<forall>i<length tms. r ! i =
              (if dims ! i = kNullDim then tms ! i
               else if fs = 1 \<and> tms ! i ! nat (dims ! i) \<noteq> [] then tms ! i
               else (tms ! i)[nat (dims ! i) := tms ! i ! nat (dims ! i) @ [fi]])"
    by blast
  have hd: "d = kNullDim \<or> (0 \<le> d \<and> nat d < length tm)"
    using Cons.prems[rule_format, of 0] by simp
  show ?case
  proof (cases "d = kNullDim")
    case True
    then show ?thesis using r by (simp add: nth_Cons split: nat.split)
  next
    case False
    with hd have "0 \<le> d" "nat d < length tm" by auto
    then show ?thesis using r False by (auto simp add: nth_Cons Let_def split: nat.split)
  qed
qed

lemma reserveFactor_fst: "fst (reserveFactor b fs ft blk) = int (length (factorSizes b))"
  by (simp add: reserveFactor_def Let_def split: FactorType.splits)

lemma reserveFactor_snd:
  "factorSizes (snd (reserveFactor b fs ft blk)) = factorSizes b @ [fs]"
  "operandMappings (snd (reserveFactor b fs ft blk)) = operandMappings b"
  "resultMappings (snd (reserveFactor b fs ft blk)) = resultMappings b"
  by (simp_all add: reserveFactor_def Let_def split: FactorType.splits)

text \<open>
  C5, as amended. A call of \<open>addFactor\<close> whose dimension lists fit the operands and
  results creates exactly one new factor, whose index is the former number of factors. In
  every operand and result whose entry is not \<open>kNullDim\<close>, that index is appended to
  the factors of the given dimension, unless the factor has size 1 and the dimension
  already has a factor: then the tensor is left as it is. A tensor whose entry is
  \<open>kNullDim\<close> is unchanged, and so is every other dimension.
\<close>

theorem addFactor_maps_factor:
  assumes "length (operandMappings b) = length operandDims"
    and "length (resultMappings b) = length resultDims"
    and "\<forall>i<length operandDims. operandDims ! i = kNullDim
           \<or> (0 \<le> operandDims ! i \<and> nat (operandDims ! i) < length (operandMappings b ! i))"
    and "\<forall>i<length resultDims. resultDims ! i = kNullDim
           \<or> (0 \<le> resultDims ! i \<and> nat (resultDims ! i) < length (resultMappings b ! i))"
  shows "\<exists>b'. addFactor b operandDims resultDims factorSize factorType isBlocked = Inr b'
           \<and> factorSizes b' = factorSizes b @ [factorSize]
           \<and> length (operandMappings b') = length (operandMappings b)
           \<and> length (resultMappings b') = length (resultMappings b)
           \<and> (\<forall>i<length operandDims. operandMappings b' ! i =
                 (if operandDims ! i = kNullDim then operandMappings b ! i
                  else if factorSize = 1 \<and> operandMappings b ! i ! nat (operandDims ! i) \<noteq> []
                  then operandMappings b ! i
                  else (operandMappings b ! i)[nat (operandDims ! i) :=
                         operandMappings b ! i ! nat (operandDims ! i) @ [int (length (factorSizes b))]]))
           \<and> (\<forall>i<length resultDims. resultMappings b' ! i =
                 (if resultDims ! i = kNullDim then resultMappings b ! i
                  else if factorSize = 1 \<and> resultMappings b ! i ! nat (resultDims ! i) \<noteq> []
                  then resultMappings b ! i
                  else (resultMappings b ! i)[nat (resultDims ! i) :=
                         resultMappings b ! i ! nat (resultDims ! i) @ [int (length (factorSizes b))]]))"
proof -
  define fi where "fi = int (length (factorSizes b))"
  define b1 where "b1 = snd (reserveFactor b factorSize factorType isBlocked)"
  have rf: "reserveFactor b factorSize factorType isBlocked = (fi, b1)"
    by (simp add: fi_def b1_def prod_eq_iff reserveFactor_fst)
  have b1: "factorSizes b1 = factorSizes b @ [factorSize]"
    "operandMappings b1 = operandMappings b" "resultMappings b1 = resultMappings b"
    by (simp_all add: b1_def reserveFactor_snd)
  from mapDimsLoop_ok[OF assms(1) assms(3), of fi factorSize]
  obtain oms where oms: "mapDimsLoop (operandMappings b) operandDims fi factorSize = Inr oms"
    "length oms = length (operandMappings b)"
    "\<forall>i<length (operandMappings b). oms ! i =
       (if operandDims ! i = kNullDim then operandMappings b ! i
        else if factorSize = 1 \<and> operandMappings b ! i ! nat (operandDims ! i) \<noteq> []
        then operandMappings b ! i
        else (operandMappings b ! i)[nat (operandDims ! i) :=
               operandMappings b ! i ! nat (operandDims ! i) @ [fi]])"
    by blast
  from mapDimsLoop_ok[OF assms(2) assms(4), of fi factorSize]
  obtain rms where rms: "mapDimsLoop (resultMappings b) resultDims fi factorSize = Inr rms"
    "length rms = length (resultMappings b)"
    "\<forall>i<length (resultMappings b). rms ! i =
       (if resultDims ! i = kNullDim then resultMappings b ! i
        else if factorSize = 1 \<and> resultMappings b ! i ! nat (resultDims ! i) \<noteq> []
        then resultMappings b ! i
        else (resultMappings b ! i)[nat (resultDims ! i) :=
               resultMappings b ! i ! nat (resultDims ! i) @ [fi]])"
    by blast
  have "addFactor b operandDims resultDims factorSize factorType isBlocked =
          Inr (b1\<lparr>operandMappings := oms, resultMappings := rms\<rparr>)"
    using assms(1,2) oms(1) rms(1) by (simp add: addFactor_def rf b1 mapDimsToFactor_def)
  moreover have "factorSizes (b1\<lparr>operandMappings := oms, resultMappings := rms\<rparr>) = factorSizes b @ [factorSize]"
    by (simp add: b1)
  ultimately show ?thesis
    using oms(2,3) rms(2,3) assms(1,2) by (simp add: fi_def)
qed

theorem addFactor_maps_factor_witness:
  "(\<exists>b'. addFactor exampleBuilder [0] [kNullDim] 2 kReduction False = Inr b'
        \<and> factorSizes b' = [4, 2]
        \<and> operandMappings b' ! 0 = [[0, 1], []]
        \<and> resultMappings b' ! 0 = [[]])"
proof -
  have h1: "length (operandMappings exampleBuilder) = length [0::int]"
    and h2: "length (resultMappings exampleBuilder) = length [kNullDim]"
    and h3: "\<forall>i<length [0::int]. [0::int] ! i = kNullDim
           \<or> (0 \<le> [0::int] ! i \<and> nat ([0::int] ! i) < length (operandMappings exampleBuilder ! i))"
    and h4: "\<forall>i<length [kNullDim]. [kNullDim] ! i = kNullDim
           \<or> (0 \<le> [kNullDim] ! i \<and> nat ([kNullDim] ! i) < length (resultMappings exampleBuilder ! i))"
    by (simp_all add: exampleBuilder_def)
  from addFactor_maps_factor[OF h1 h2 h3 h4, of 2 kReduction False]
  show ?thesis by (auto simp add: exampleBuilder_def kNullDim_def)
qed

text \<open>
  C5 as stated fails: a factor of size 1 is not appended to a dimension that already has
  a factor, although the entry of the operand is not \<open>kNullDim\<close>.
\<close>

theorem addFactor_size_one_counterexample:
  "addFactor mappedBuilder [0] [0] 1 kPassThrough False =
     Inr (mappedBuilder\<lparr>factorSizes := [4, 1], resultMappings := [[[1]]]\<rparr>)
   \<and> operandMappings (mappedBuilder\<lparr>factorSizes := [4, 1], resultMappings := [[[1]]]\<rparr>) ! 0 ! 0
       \<noteq> operandMappings mappedBuilder ! 0 ! 0 @ [1]"
  by (simp add: addFactor_def reserveFactor_def mapDimsToFactor_def mappedBuilder_def kNullDim_def)

subsection \<open>Building the rule\<close>

lemma buildDimMappings_snd:
  "snd (buildDimMappings tm fs) = fs @ replicate (length (filter (\<lambda>d. d = []) tm)) 1"
  by (induction tm arbitrary: fs) (simp_all add: split_beta replicate_append_same)

lemma buildDimMappings_len:
  "length (fst (buildDimMappings tm fs)) = length tm"
  by (induction tm arbitrary: fs) (simp_all add: split_beta)

lemma buildDimMappings_nth:
  "j < length tm \<Longrightarrow> fst (buildDimMappings tm fs) ! j =
     (if tm ! j = [] then [int (length fs + length (filter (\<lambda>d. d = []) (take j tm)))] else tm ! j)"
proof (induction tm arbitrary: fs j)
  case Nil
  then show ?case by simp
next
  case (Cons d tm)
  show ?case
  proof (cases j)
    case 0
    then show ?thesis by (simp add: split_beta)
  next
    case (Suc k)
    with Cons.prems have k: "k < length tm" by simp
    show ?thesis using Cons.IH[OF k, of "fs @ [1]"] Cons.IH[OF k, of fs] Suc
      by (simp add: split_beta)
  qed
qed

lemma bTMAL_snd:
  "snd (buildTensorMappingAttrList tms fs) = fs @ replicate (length (filter (\<lambda>d. d = []) (concat tms))) 1"
  by (induction tms arbitrary: fs)
     (simp_all add: split_beta buildDimMappings_snd replicate_add)

lemma bTMAL_shape:
  "map length (fst (buildTensorMappingAttrList tms fs)) = map length tms"
  by (induction tms arbitrary: fs) (simp_all add: split_beta buildDimMappings_len)

lemma bTMAL_concat_len:
  "length (concat (fst (buildTensorMappingAttrList tms fs))) = length (concat tms)"
  by (induction tms arbitrary: fs) (simp_all add: split_beta buildDimMappings_len)

lemma bTMAL_nth:
  "j < length (concat tms) \<Longrightarrow> concat (fst (buildTensorMappingAttrList tms fs)) ! j =
     (if concat tms ! j = [] then [int (length fs + length (filter (\<lambda>d. d = []) (take j (concat tms))))]
      else concat tms ! j)"
proof (induction tms arbitrary: fs j)
  case Nil
  then show ?case by simp
next
  case (Cons tm tms)
  show ?case
  proof (cases "j < length tm")
    case True
    then show ?thesis
      by (simp add: split_beta nth_append buildDimMappings_len buildDimMappings_nth)
  next
    case False
    with Cons.prems have k: "j - length tm < length (concat tms)" by simp
    show ?thesis using Cons.IH[OF k, of "snd (buildDimMappings tm fs)"] False
      by (simp add: split_beta nth_append buildDimMappings_len buildDimMappings_snd)
  qed
qed

lemma build_restores: "snd (build b) = b"
  by (simp add: build_def Let_def split_beta bTMAL_snd resize_def)


text \<open>
  C6. \<open>build\<close> returns the builder as it was, so that a second call returns the
  same rule. In the rule, the tensors have the ranks of the builder; a dimension that has
  factors keeps them; a dimension without one has a single factor, the next index not
  yet used (counting, in the order operands then results, the empty dimensions before
  it), and every such factor has size 1.
\<close>

theorem build_pads_and_restores:
  "snd (build b) = b
   \<and> fst (build (snd (build b))) = fst (build b)
   \<and> map length (operand_mappings (fst (build b))) = map length (operandMappings b)
   \<and> map length (result_mappings (fst (build b))) = map length (resultMappings b)
   \<and> factor_sizes (fst (build b)) =
       factorSizes b
       @ replicate (length (filter (\<lambda>d. d = []) (concat (operandMappings b @ resultMappings b)))) 1
   \<and> (\<forall>j<length (concat (operandMappings b @ resultMappings b)).
         concat (operand_mappings (fst (build b)) @ result_mappings (fst (build b))) ! j =
           (if concat (operandMappings b @ resultMappings b) ! j = []
            then [int (length (factorSizes b)
                       + length (filter (\<lambda>d. d = [])
                                   (take j (concat (operandMappings b @ resultMappings b)))))]
            else concat (operandMappings b @ resultMappings b) ! j))"
proof -
  define fs where "fs = factorSizes b"
  define fs1 where "fs1 = snd (buildTensorMappingAttrList (operandMappings b) fs)"
  define oa where "oa = fst (buildTensorMappingAttrList (operandMappings b) fs)"
  define ra where "ra = fst (buildTensorMappingAttrList (resultMappings b) fs1)"
  define fs2 where "fs2 = snd (buildTensorMappingAttrList (resultMappings b) fs1)"
  have fs1: "fs1 = fs @ replicate (length (filter (\<lambda>d. d = []) (concat (operandMappings b)))) 1"
    by (simp add: fs1_def bTMAL_snd)
  have fs2: "fs2 = fs @ replicate (length (filter (\<lambda>d. d = []) (concat (operandMappings b @ resultMappings b)))) 1"
    by (simp add: fs2_def bTMAL_snd fs1 replicate_add)
  have r: "fst (build b) =
             \<lparr>factor_sizes = fs2, operand_mappings = oa, result_mappings = ra,
              reduction_factors = reductionFactors b,
              need_replication_factors = needReplicationFactors b,
              permutation_factors = permutationFactors b,
              blocked_propagation_factors = blockedPropagationFactors b\<rparr>"
    by (simp add: build_def Let_def split_beta fs_def fs1_def fs2_def oa_def ra_def)
  have restore: "snd (build b) = b" by (rule build_restores)
  have nth: "concat (oa @ ra) ! j =
           (if concat (operandMappings b @ resultMappings b) ! j = []
            then [int (length fs
                       + length (filter (\<lambda>d. d = [])
                                   (take j (concat (operandMappings b @ resultMappings b)))))]
            else concat (operandMappings b @ resultMappings b) ! j)"
    if j: "j < length (concat (operandMappings b @ resultMappings b))" for j
  proof (cases "j < length (concat (operandMappings b))")
    case True
    then show ?thesis
      by (simp add: oa_def nth_append bTMAL_concat_len bTMAL_nth)
  next
    case False
    with j have k: "j - length (concat (operandMappings b)) < length (concat (resultMappings b))"
      by simp
    show ?thesis using False bTMAL_nth[OF k, of fs1]
      by (simp add: oa_def ra_def nth_append bTMAL_concat_len fs1)
  qed
  show ?thesis
    using nth by (simp add: restore r fs2 oa_def ra_def bTMAL_shape fs_def)
qed

theorem build_pads_and_restores_witness:
  "(1::nat) < length (concat (operandMappings exampleBuilder @ resultMappings exampleBuilder))
   \<and> concat (operand_mappings (fst (build exampleBuilder))
              @ result_mappings (fst (build exampleBuilder))) ! 1 = [1]
   \<and> factor_sizes (fst (build exampleBuilder)) = [4, 1, 1]"
proof -
  have h: "(1::nat) < length (concat (operandMappings exampleBuilder @ resultMappings exampleBuilder))"
    by (simp add: exampleBuilder_def)
  from build_pads_and_restores[of exampleBuilder]
  have "\<forall>j<length (concat (operandMappings exampleBuilder @ resultMappings exampleBuilder)).
         concat (operand_mappings (fst (build exampleBuilder)) @ result_mappings (fst (build exampleBuilder))) ! j =
           (if concat (operandMappings exampleBuilder @ resultMappings exampleBuilder) ! j = []
            then [int (length (factorSizes exampleBuilder)
                       + length (filter (\<lambda>d. d = [])
                                   (take j (concat (operandMappings exampleBuilder @ resultMappings exampleBuilder)))))]
            else concat (operandMappings exampleBuilder @ resultMappings exampleBuilder) ! j)"
    and fs: "factor_sizes (fst (build exampleBuilder)) =
       factorSizes exampleBuilder
       @ replicate (length (filter (\<lambda>d. d = []) (concat (operandMappings exampleBuilder @ resultMappings exampleBuilder)))) 1"
    by blast+
  from this(1)[rule_format, OF h] fs h show ?thesis
    by (simp add: exampleBuilder_def)
qed


section \<open>Properties of the bytecode records\<close>

lemma tensorShardingDefs:
  "filter (\<lambda>i. cType (SdyDialectTypes ! i) = ''TensorShardingAttr''
                 \<and> printerPredicate (SdyDialectTypes ! i) v) [0..<length SdyDialectTypes]
   = (if unreduced_axes v = [] then [6] else [15])"
  by (simp add: SdyDialectTypes_def upt_rec[of _ "numeral _"] upt_rec[of _ "Suc _"])

lemma tag6: "SdyDialectTypes ! 6 = Sdy_TensorShardingAttrV1Bc"
  and tag15: "SdyDialectTypes ! 15 = Sdy_TensorShardingAttrV2Bc"
  by (simp_all add: SdyDialectTypes_def)

text \<open>
  C9. A tensor sharding is written as the record of V1, with tag 6 and without the field
  of the unreduced axes, exactly when it has no unreduced axes, and as the record of V2,
  with tag 15 and with that field, exactly when it has some. Of the two predicates exactly
  one holds. A record of V1 is read as a sharding without unreduced axes, and reading
  what was written gives the sharding back.
\<close>

theorem tensor_sharding_record_version:
  "(writeTensorShardingAttr v =
      Some (6, [FAttribute (mesh_or_ref v), FDimShardings (dim_shardings v),
                FAxisRefs (replicated_axes v)])) = (unreduced_axes v = [])
   \<and> (writeTensorShardingAttr v =
      Some (15, [FAttribute (mesh_or_ref v), FDimShardings (dim_shardings v),
                 FAxisRefs (replicated_axes v), FAxisRefs (unreduced_axes v)]))
       = (unreduced_axes v \<noteq> [])
   \<and> printerPredicate Sdy_TensorShardingAttrV1Bc v \<noteq> printerPredicate Sdy_TensorShardingAttrV2Bc v
   \<and> SdyDialectTypes ! 6 = Sdy_TensorShardingAttrV1Bc
   \<and> SdyDialectTypes ! 15 = Sdy_TensorShardingAttrV2Bc
   \<and> readTensorShardingAttr (6, [FAttribute m, FDimShardings ds, FAxisRefs rs]) =
       Some \<lparr>mesh_or_ref = m, dim_shardings = ds, replicated_axes = rs, unreduced_axes = []\<rparr>
   \<and> (\<exists>r. writeTensorShardingAttr v = Some r \<and> readTensorShardingAttr r = Some v)"
proof -
  have len: "length SdyDialectTypes = 17" by (simp add: SdyDialectTypes_def)
  have w: "writeTensorShardingAttr v =
        (if unreduced_axes v = []
         then Some (6, [FAttribute (mesh_or_ref v), FDimShardings (dim_shardings v),
                        FAxisRefs (replicated_axes v)])
         else Some (15, [FAttribute (mesh_or_ref v), FDimShardings (dim_shardings v),
                 FAxisRefs (replicated_axes v), FAxisRefs (unreduced_axes v)]))"
    unfolding writeTensorShardingAttr_def tensorShardingDefs by (simp add: tag6 tag15)
  have r1: "readTensorShardingAttr (6, [FAttribute m, FDimShardings ds, FAxisRefs rs]) =
       Some \<lparr>mesh_or_ref = m, dim_shardings = ds, replicated_axes = rs, unreduced_axes = []\<rparr>" for m ds rs
    by (simp add: readTensorShardingAttr_def len tag6)
  have r2: "readTensorShardingAttr (15, [FAttribute m, FDimShardings ds, FAxisRefs rs, FAxisRefs us]) =
       Some \<lparr>mesh_or_ref = m, dim_shardings = ds, replicated_axes = rs, unreduced_axes = us\<rparr>" for m ds rs us
    by (simp add: readTensorShardingAttr_def len tag15)
  have rt: "\<exists>r. writeTensorShardingAttr v = Some r \<and> readTensorShardingAttr r = Some v"
    by (cases "unreduced_axes v = []") (simp_all add: w r1 r2)
  show ?thesis using rt by (simp add: w r1 tag6 tag15)
qed


section \<open>Properties of the canonicalization patterns\<close>

text \<open>
  C10. An all-slice of an all-gather with the same axes per dimension is replaced by the
  operand of the all-gather, whatever the value and the axes (and the out shardings) are;
  with different axes the pattern does not match.
\<close>

theorem all_slice_of_all_gather_is_identity:
  "AllSliceOfAllGatherPattern (AllSliceOp (AllGatherOp tensor axesPerDim s1) axesPerDim s2)
     = Some tensor
   \<and> (AllSliceOfAllGatherPattern (AllSliceOp (AllGatherOp tensor gatheringAxes s1) slicingAxes s2)
        = Some replacement) = (gatheringAxes = slicingAxes \<and> replacement = tensor)"
  by auto

text \<open>
  C7. Two consecutive all-to-alls, the inner one with a single use and parameter lists
  that do not overlap, are replaced by one all-to-all on the inner operand with the outer
  out sharding; its parameters are those of both lists together, sorted.
\<close>

theorem all_to_all_fusion:
  assumes "HasOneUse uses (AllToAllOp inner_tensor inner_params inner_sharding)"
    and "\<not> overlaps inner_params outer_params"
  shows "\<exists>params.
           AllToAllFusionPattern uses overlaps (combineAndSort key)
             (AllToAllOp (AllToAllOp inner_tensor inner_params inner_sharding)
                outer_params outer_sharding)
           = Some (AllToAllOp inner_tensor params outer_sharding)
           \<and> mset params = mset inner_params + mset outer_params
           \<and> sorted (map key params)"
  using assms by (simp add: combineAndSort_def)

theorem all_to_all_fusion_witness:
  "HasOneUse (\<lambda>v. 1) (AllToAllOp (BlockArg 0) [AllToAllParam [ax ''x''] 2 0]
                          (closed ''mesh2d'' [[ax ''x''], [], [ax ''y''], []]))
   \<and> \<not> (\<lambda>ps qs. False) [AllToAllParam [ax ''x''] 2 0] [AllToAllParam [ax ''y''] 1 3]
   \<and> (\<exists>params.
         AllToAllFusionPattern (\<lambda>v. 1) (\<lambda>ps qs. False) (combineAndSort src_dim)
           (AllToAllOp (AllToAllOp (BlockArg 0) [AllToAllParam [ax ''x''] 2 0]
                          (closed ''mesh2d'' [[ax ''x''], [], [ax ''y''], []]))
              [AllToAllParam [ax ''y''] 1 3]
              (closed ''mesh2d'' [[ax ''x''], [], [], [ax ''y'']]))
         = Some (AllToAllOp (BlockArg 0) params (closed ''mesh2d'' [[ax ''x''], [], [], [ax ''y'']]))
         \<and> mset params = mset [AllToAllParam [ax ''x''] 2 0] + mset [AllToAllParam [ax ''y''] 1 3]
         \<and> sorted (map src_dim params))"
proof -
  have h1: "HasOneUse (\<lambda>v. 1) (AllToAllOp (BlockArg 0) [AllToAllParam [ax ''x''] 2 0]
                          (closed ''mesh2d'' [[ax ''x''], [], [ax ''y''], []]))"
    by (simp add: HasOneUse_def)
  have h2: "\<not> (\<lambda>ps qs. False) [AllToAllParam [ax ''x''] 2 0] [AllToAllParam [ax ''y''] 1 3]"
    by simp
  from all_to_all_fusion[OF h1 h2] h1 h2 show ?thesis by blast
qed

section \<open>Properties of the propagation directions\<close>

unbundle bit_operations_syntax

lemma combine_cases:
  "combineDirections d d = d" "combineDirections d NONE = d" "combineDirections NONE d = d"
  "combineDirections d BOTH = BOTH" "combineDirections BOTH d = BOTH"
  "combineDirections FORWARD BACKWARD = BOTH" "combineDirections BACKWARD FORWARD = BOTH"
  by (cases d; simp add: combineDirections_def)+

lemma combine_lub:
  "directionLe (combineDirections a b) c = (directionLe a c \<and> directionLe b c)"
  by (cases a; cases b; cases c; simp add: combineDirections_def directionLe_def)

lemma combine_value:
  "directionValue (combineDirections a b) = directionValue a OR directionValue b"
  by (cases a; cases b; simp add: combineDirections_def)

lemma foldl_combine_lub:
  "directionLe (foldl combineDirections a ds) c = (directionLe a c \<and> (\<forall>d\<in>set ds. directionLe d c))"
  by (induction ds arbitrary: a) (auto simp: combine_lub)


lemma set_take_nth:
  "set (take n xs) = {xs ! i | i. i < n \<and> i < length xs}"
proof (intro set_eqI iffI)
  fix x assume "x \<in> set (take n xs)"
  then obtain i where "i < length (take n xs)" "take n xs ! i = x"
    by (auto simp: in_set_conv_nth)
  then have "i < n \<and> i < length xs \<and> xs ! i = x" by simp
  then show "x \<in> {xs ! i | i. i < n \<and> i < length xs}" by blast
next
  fix x assume "x \<in> {xs ! i | i. i < n \<and> i < length xs}"
  then obtain i where i: "i < n" "i < length xs" "x = xs ! i" by blast
  then have "i < length (take n xs)" "take n xs ! i = x" by simp_all
  then show "x \<in> set (take n xs)" by (metis nth_mem)
qed

lemma schedule_directions:
  "set (map (\<lambda>heuristic. heuristic op) (take (Suc p) schedule))
     = {(schedule ! i) op | i. i \<le> p \<and> i < length schedule}"
  unfolding set_map set_take_nth by (auto simp: less_Suc_eq_le)

text \<open>
  C8. Combining two directions gives their least upper bound in the order
  \<open>NONE < {FORWARD, BACKWARD} < BOTH\<close>: a direction with itself or with \<open>NONE\<close> gives
  that direction, anything with \<open>BOTH\<close> gives \<open>BOTH\<close>, \<open>FORWARD\<close> with \<open>BACKWARD\<close>
  gives \<open>BOTH\<close> in either order. The direction of an operation at priority \<open>p\<close> is the
  least upper bound of the directions of the heuristics of the priorities \<open>0..p\<close>, and
  so is the combination of any list of directions, whatever the range of priorities. On
  the values of the enumeration, combining is the bitwise or.
\<close>

theorem directions_combine_by_join:
  "directionLe (combineDirections a b) c = (directionLe a c \<and> directionLe b c)
   \<and> combineDirections d d = d
   \<and> combineDirections d NONE = d \<and> combineDirections NONE d = d
   \<and> combineDirections d BOTH = BOTH \<and> combineDirections BOTH d = BOTH
   \<and> combineDirections FORWARD BACKWARD = BOTH \<and> combineDirections BACKWARD FORWARD = BOTH
   \<and> directionLe (directionAtPriority schedule p op) c
       = (\<forall>i. i \<le> p \<and> i < length schedule \<longrightarrow> directionLe ((schedule ! i) op) c)
   \<and> directionLe (foldl combineDirections NONE ds) c = (\<forall>x\<in>set ds. directionLe x c)
   \<and> directionValue (combineDirections a b) = directionValue a OR directionValue b"
proof -
  have "directionLe (directionAtPriority schedule p op) c
       = (\<forall>i. i \<le> p \<and> i < length schedule \<longrightarrow> directionLe ((schedule ! i) op) c)"
    unfolding directionAtPriority_def foldl_combine_lub schedule_directions
    by (auto simp: directionLe_def)
  moreover have "directionLe NONE c"
    by (simp add: directionLe_def)
  then have "directionLe (foldl combineDirections NONE ds) c = (\<forall>x\<in>set ds. directionLe x c)"
    by (simp add: foldl_combine_lub)
  ultimately show ?thesis
    by (simp add: combine_lub combine_cases combine_value)
qed

theorem directions_combine_by_join_witness:
  "(2::nat) \<le> 2 \<and> 2 < length exampleSchedule
   \<and> directionLe ((exampleSchedule ! 2) ()) (directionAtPriority exampleSchedule 2 ())
   \<and> directionAtPriority exampleSchedule 2 () = BOTH
   \<and> FORWARD \<in> set [FORWARD, BACKWARD]
   \<and> directionLe FORWARD (foldl combineDirections NONE [FORWARD, BACKWARD])"
proof -
  have le: "directionLe (directionAtPriority exampleSchedule 2 ()) (directionAtPriority exampleSchedule 2 ())"
    by (simp add: directionLe_def)
  have h: "(2::nat) \<le> 2 \<and> 2 < length exampleSchedule"
    by (simp add: exampleSchedule_def)
  from directions_combine_by_join[where schedule = exampleSchedule and p = 2 and op = "()"
         and c = "directionAtPriority exampleSchedule 2 ()" and a = NONE and b = NONE
         and d = NONE and ds = "[]"] le
  have "\<forall>i. i \<le> 2 \<and> i < length exampleSchedule
          \<longrightarrow> directionLe ((exampleSchedule ! i) ()) (directionAtPriority exampleSchedule 2 ())"
    by blast
  from this[rule_format, OF h] have s: "directionLe ((exampleSchedule ! 2) ())
      (directionAtPriority exampleSchedule 2 ())" .
  have le': "directionLe (foldl combineDirections NONE [FORWARD, BACKWARD])
               (foldl combineDirections NONE [FORWARD, BACKWARD])"
    by (simp add: directionLe_def)
  have m: "FORWARD \<in> set [FORWARD, BACKWARD]" by simp
  from directions_combine_by_join[where ds = "[FORWARD, BACKWARD]"
         and c = "foldl combineDirections NONE [FORWARD, BACKWARD]" and a = NONE and b = NONE
         and d = NONE and schedule = "[]" and p = 0 and op = "()"] le'
  have "\<forall>x\<in>set [FORWARD, BACKWARD].
          directionLe x (foldl combineDirections NONE [FORWARD, BACKWARD])"
    by blast
  from this[rule_format, OF m] have l: "directionLe FORWARD (foldl combineDirections NONE [FORWARD, BACKWARD])" .
  from s l h m show ?thesis
    by (simp add: directionAtPriority_def exampleSchedule_def combineDirections_def)
qed

section \<open>Properties of the resharding synthesis\<close>

lemma concat_filter_empty:
  "(\<And>l a. l \<in> set ls \<Longrightarrow> a \<in> set l \<Longrightarrow> \<not> P a) \<Longrightarrow> concat (map (filter P) ls) = []"
  by (induction ls) (auto simp: filter_empty_conv)

lemma sliceAxes_same: "concat (sliceAxes s s) = []"
  unfolding sliceAxes_def by (rule concat_filter_empty) auto

lemma gatherAxes_same: "concat (gatherAxes s s) = []"
  unfolding gatherAxes_def by (rule concat_filter_empty) auto

lemma moveAxes_same: "moveAxes s s d d' = []"
  by (simp add: moveAxes_def filter_empty_conv)

lemma reorderAxes_same: "reorderAxes s s d = []"
  by (simp add: reorderAxes_def)

lemma mismatchedMoves_same: "mismatchedMoves s s d d' = []"
  by (simp add: mismatchedMoves_def moveAxes_same)

lemma concat_map_empty: "(\<And>x. x \<in> set xs \<Longrightarrow> f x = []) \<Longrightarrow> concat (map f xs) = []"
  by (induction xs) auto

lemma permuteAxes_same: "permuteAxes s s = []"
  unfolding permuteAxes_def
  by (simp add: concat_map_empty reorderAxes_same mismatchedMoves_same split_beta)

lemma elide_all_empty: "(\<And>c. c \<in> set cs \<Longrightarrow> axisParameters c = []) \<Longrightarrow> elide cs = []"
  by (simp add: elide_def filter_empty_conv)

lemma reshard_same_canonical:
  assumes "canonicalDims mesh S = canonicalDims mesh T"
  shows "reshard mesh S T = Some []"
proof -
  let ?s = "canonicalDims mesh S"
  have "elide ([all_slice (sliceAxes ?s ?s)] @ [collective_permute (permuteAxes ?s ?s)]
            @ map (\<lambda>(d, d'). all_to_all (moveAxes ?s ?s d d') d d') (dimPairs ?s)
            @ [all_gather (gatherAxes ?s ?s)]) = []"
    by (rule elide_all_empty)
       (auto simp: sliceAxes_same gatherAxes_same permuteAxes_same moveAxes_same)
  then show ?thesis using assms by (simp add: reshard_def Let_def)
qed

lemma reshard_elides:
  "reshard mesh A B = Some cs \<Longrightarrow> c \<in> set cs \<Longrightarrow> axisParameters c \<noteq> []"
  by (auto simp: reshard_def Let_def elide_def split: if_splits)

lemma canonicalDims_flags:
  "canonicalDims mesh (S\<lparr>dim_shardings := map (\<lambda>d. d\<lparr>is_closed := flag d\<rparr>) (dim_shardings S)\<rparr>)
     = canonicalDims mesh S"
  by (simp add: canonicalDims_def comp_def)

text \<open>
  C1. A reshard to a target whose dimensions have the axes of the source, up to the
  merging of sub-axes and whatever the flags of the dimensions are, yields the empty
  sequence. No collective of a synthesized sequence has an empty axis-parameter list; and
  the canonicalization patterns replace an all-gather or all-slice whose axes are empty
  in every dimension by its operand.
\<close>

theorem reshard_to_same_sharding_is_empty:
  assumes "canonicalDims mesh S = canonicalDims mesh T"
  shows "reshard mesh S T = Some []
     \<and> reshard mesh S S = Some []
     \<and> reshard mesh S (S\<lparr>dim_shardings := map (\<lambda>d. d\<lparr>is_closed := flag d\<rparr>) (dim_shardings S)\<rparr>)
         = Some []
     \<and> (\<forall>A B cs. reshard mesh A B = Some cs \<longrightarrow> (\<forall>c\<in>set cs. axisParameters c \<noteq> []))
     \<and> (Sdy_EmptyAxesPerDim axesPerDim \<longrightarrow>
           AllGatherNoopPattern (AllGatherOp tensor axesPerDim outSharding) = Some tensor
           \<and> AllSliceNoopPattern (AllSliceOp tensor axesPerDim outSharding) = Some tensor)"
proof -
  have "reshard mesh S T = Some []"
    using assms by (rule reshard_same_canonical)
  moreover have "reshard mesh S S = Some []"
    by (rule reshard_same_canonical) simp
  moreover have "reshard mesh S (S\<lparr>dim_shardings := map (\<lambda>d. d\<lparr>is_closed := flag d\<rparr>) (dim_shardings S)\<rparr>)
         = Some []"
    by (rule reshard_same_canonical) (simp add: canonicalDims_flags)
  moreover have "\<forall>A B cs. reshard mesh A B = Some cs \<longrightarrow> (\<forall>c\<in>set cs. axisParameters c \<noteq> [])"
    using reshard_elides by blast
  ultimately show ?thesis by simp
qed

theorem reshard_to_same_sharding_is_empty_witness:
  "canonicalDims (meshOf (MeshRef ''mesh4d_w4'')) splitW
     = canonicalDims (meshOf (MeshRef ''mesh4d_w4'')) wholeW
   \<and> reshard (meshOf (MeshRef ''mesh4d_w4'')) splitW wholeW = Some []
   \<and> reshard (meshOf (MeshRef ''mesh2d'')) (source redundant_reshard) (target redundant_reshard)
       = Some []
   \<and> chain (expected redundant_reshard) = []
   \<and> reshard (meshOf (MeshRef ''mesh2d'')) (source all_gather_single_axis)
         (target all_gather_single_axis) = Some [all_gather [[], [ax ''x'']]]
   \<and> axisParameters (all_gather [[], [ax ''x'']]) \<noteq> []
   \<and> Sdy_EmptyAxesPerDim [[], []]
   \<and> AllGatherNoopPattern (AllGatherOp (BlockArg 0) [[], []] (closed ''mesh2d'' [[], []]))
       = Some (BlockArg 0)
   \<and> AllSliceNoopPattern (AllSliceOp (BlockArg 0) [[], []] (closed ''mesh2d'' [[], []]))
       = Some (BlockArg 0)"
proof -
  have h1: "canonicalDims (meshOf (MeshRef ''mesh4d_w4'')) splitW
     = canonicalDims (meshOf (MeshRef ''mesh4d_w4'')) wholeW"
    by (simp add: canonicalDims_def splitW_def wholeW_def closed_def opened_def sub_def ax_def
                  meshes_def)
  have h2: "canonicalDims (meshOf (MeshRef ''mesh2d'')) (source redundant_reshard)
     = canonicalDims (meshOf (MeshRef ''mesh2d'')) (target redundant_reshard)"
    by (simp add: canonicalDims_def redundant_reshard_def closed_def opened_def)
  have g: "reshard (meshOf (MeshRef ''mesh2d'')) (source all_gather_single_axis)
         (target all_gather_single_axis) = Some [all_gather [[], [ax ''x'']]]"
    by code_simp
  have e: "Sdy_EmptyAxesPerDim [[], []]"
    by (simp add: Sdy_EmptyAxesPerDim_def)
  note w4 = reshard_to_same_sharding_is_empty[OF h1]
  note w2 = reshard_to_same_sharding_is_empty[OF h2, where axesPerDim = "[[], []]"
              and tensor = "BlockArg 0" and outSharding = "closed ''mesh2d'' [[], []]"]
  from w2 have "\<forall>A B cs. reshard (meshOf (MeshRef ''mesh2d'')) A B = Some cs
                  \<longrightarrow> (\<forall>c\<in>set cs. axisParameters c \<noteq> [])"
    by blast
  from this[rule_format, OF g] have p: "axisParameters (all_gather [[], [ax ''x'']]) \<noteq> []"
    by simp
  from w2 e have n: "AllGatherNoopPattern (AllGatherOp (BlockArg 0) [[], []] (closed ''mesh2d'' [[], []]))
       = Some (BlockArg 0)
   \<and> AllSliceNoopPattern (AllSliceOp (BlockArg 0) [[], []] (closed ''mesh2d'' [[], []]))
       = Some (BlockArg 0)"
    by blast
  from w4 w2 h1 g p e n show ?thesis by (simp add: redundant_reshard_def)
qed

text \<open>
  The test \<open>slice_then_reorder_axes\<close> expects one collective-permute, and expects it
  after the all-slice, not before every other collective. Every expected sequence of the
  test file has at most one collective-permute and runs in the order all-slice,
  collective-permute, all-to-alls, all-gather.
\<close>

lemma slice_then_reorder_axes_order:
  "numPermutes (expected slice_then_reorder_axes) = 1
   \<and> map stage (chain (expected slice_then_reorder_axes)) = [0, 1]
   \<and> \<not> permutesFirst (expected slice_then_reorder_axes)"
  by code_simp

lemma expected_sequences_order:
  "list_all (\<lambda>t. numPermutes (expected t) \<le> 1 \<and> stagesInOrder (expected t))
     reshard_to_collectives_tests"
  by code_simp

section \<open>Properties of the propagation\<close>

lemma dimAt_refineDim:
  "dimAt (refineDim candidate table vd) wd =
     (case dimAt table wd of
        None \<Rightarrow> None
      | Some ds \<Rightarrow> Some (if wd = vd \<and> \<not> is_closed ds \<and> strict_prefix (axes ds) candidate
                         then ds\<lparr>axes := candidate\<rparr> else ds))"
proof (cases "dimAt table vd")
  case None
  then show ?thesis by (auto simp: refineDim_def split: option.splits)
next
  case (Some ds)
  then have v: "fst vd < length table" "snd vd < length (table ! fst vd)"
    and ds: "ds = table ! fst vd ! snd vd"
    by (auto simp: dimAt_def split: if_splits)
  show ?thesis
  proof (cases "\<not> is_closed ds \<and> strict_prefix (axes ds) candidate")
    case False
    then show ?thesis using Some by (auto simp: refineDim_def split: option.splits)
  next
    case True
    then have r: "refineDim candidate table vd =
        table[fst vd := (table ! fst vd)[snd vd := ds\<lparr>axes := candidate\<rparr>]]"
      using Some by (simp add: refineDim_def)
    show ?thesis
      unfolding r using v ds True
      by (cases vd; cases wd) (auto simp: dimAt_def nth_list_update split: option.splits)
  qed
qed

lemma dimAt_foldl_refineDim:
  "dimAt (foldl (refineDim candidate) table vds) wd =
     (case dimAt table wd of
        None \<Rightarrow> None
      | Some ds \<Rightarrow> Some (if wd \<in> set vds \<and> \<not> is_closed ds \<and> strict_prefix (axes ds) candidate
                         then ds\<lparr>axes := candidate\<rparr> else ds))"
proof (induction vds arbitrary: table)
  case Nil
  then show ?case by (simp split: option.splits)
next
  case (Cons vd vds)
  show ?case
    by (auto simp add: Cons.IH dimAt_refineDim split: option.splits)
qed

lemma foldl_fixed: "(\<And>x. x \<in> set xs \<Longrightarrow> g t x = t) \<Longrightarrow> foldl g t xs = t"
  by (induction xs) auto































end
